theory Spec2Isabelle
  imports Complex_Main
begin

section \<open>Data model (src/game/core/types.ts)\<close>

text \<open>
  The simulation core of the game: \<open>tickGame\<close> and the functions it calls. Every
  TypeScript \<open>number\<close> is modelled as a \<open>real\<close> (exact arithmetic; rounding of IEEE
  doubles is not modelled). The literal union \<open>FishSizeClass = 1 | 2 | 3 | 4 | 5\<close> is a
  five-constructor datatype with its numeric value \<open>classNum\<close>. Record fields that
  share a name in the source are prefixed here, because record selectors are global
  constants: \<open>Vec2.x, y\<close> are \<open>xc, yc\<close>; \<open>Entity.id\<close> is \<open>eid\<close>;
  \<open>PlayerState.pos, vel, radius\<close> are \<open>ppos, pvel, pradius\<close>;
  \<open>apexThreat.lastHitAt\<close> is \<open>threatLastHitAt\<close>. The optional field
  \<open>Entity.pointsOnEat\<close> is never read or written by the core and is left out.
\<close>

datatype DifficultyKey = Easy | Normal | Hard

datatype EntityKind = Prey | Predator | Apex | Hazard

datatype FishSizeClass = S1 | S2 | S3 | S4 | S5

datatype GameModeState = Title | Playing | Paused | GameOver

fun classNum :: "FishSizeClass \<Rightarrow> real" where
  "classNum S1 = 1"
| "classNum S2 = 2"
| "classNum S3 = 3"
| "classNum S4 = 4"
| "classNum S5 = 5"

record Vec2 =
  xc :: real
  yc :: real

record Combat =
  maxHealth :: real
  health :: real
  tailWindowBias :: real
  flashUntil :: real
  lastHitAt :: real

record Entity =
  eid :: real
  kind :: EntityKind
  sizeClass :: "FishSizeClass option"
  variant :: "real option"
  pos :: Vec2
  vel :: Vec2
  radius :: real
  combat :: "Combat option"

record DifficultyProfile =
  key :: DifficultyKey
  label :: string
  scoreMultiplier :: real
  startingLives :: real
  playerSpeed :: real
  playerTurnLerp :: real
  playerHitboxScale :: real
  enemyHitboxScale :: real
  preySpawnPerSecond :: real
  predatorSpawnPerSecond :: real
  apexSpawnPerSecond :: real
  hazardSpawnPerSecond :: real
  maxPrey :: real
  maxPredators :: real
  maxApex :: real
  maxHazards :: real
  predatorAggression :: real
  apexAggression :: real
  apexMaxHealth :: real
  apexTailHitLeniency :: real
  reactionSmoothing :: real
  graceSecondsAfterRespawn :: real
  extraLifeScoreStep :: real

record PlayerState =
  ppos :: Vec2
  pvel :: Vec2
  pradius :: real
  sizeTier :: real
  lives :: real
  invulnerableUntil :: real

record RunProgress =
  score :: real
  timeSeconds :: real
  preyEaten :: real
  predatorsAvoided :: real
  nextGrowthScore :: real
  nextExtraLifeScore :: real
  milestone :: real

record Arena =
  width :: real
  height :: real

record ApexThreat =
  activeCount :: real
  intensity :: real
  threatLastHitAt :: real
  lastKillAt :: real

datatype GameEvent =
    EvScore real
  | EvEat EntityKind "FishSizeClass option"
  | EvPlayerHit real
  | EvExtraLife real
  | EvGrowth real
  | EvGameOver real
  | EvMilestone real
  | EvApexHit real real real real real Vec2
  | EvApexKilled real real Vec2
  | EvApexIntensity real

text \<open>
  \<open>EvApexHit entityId damage health maxHealth points pos\<close> and
  \<open>EvApexKilled entityId points pos\<close> carry their fields in the order of the source's
  object literals.
\<close>

record GameState =
  seed :: real
  elapsedMs :: real
  mode :: GameModeState
  arena :: Arena
  difficulty :: DifficultyProfile
  player :: PlayerState
  entities :: "Entity list"
  run :: RunProgress
  nextEntityId :: real
  spawnTimers :: "EntityKind \<Rightarrow> real"
  apexThreat :: ApexThreat
  pendingEvents :: "GameEvent list"

record InputState =
  movement :: Vec2
  pausePressed :: bool

section \<open>Randomness\<close>

text \<open>
  \<open>Math.random()\<close> is an ambient generator. It is modelled by an explicit source of
  draws, the sequence of the values the generator will return; a function that calls
  \<open>Math.random()\<close> takes the source and returns the rest of it with its result. The
  \<open>seed\<close> field of the state is written once by \<open>createInitialGameState\<close> and never
  read: it does not seed the generator.
\<close>

type_synonym rng = "nat \<Rightarrow> real"

definition random :: "rng \<Rightarrow> real \<times> rng" where
  "random g = (g 0, \<lambda>n. g (Suc n))"

section \<open>Vector and scalar utilities (math.ts)\<close>

definition clamp :: "real \<Rightarrow> real \<Rightarrow> real \<Rightarrow> real" where
  "clamp v mn mx = max mn (min mx v)"

definition lerp :: "real \<Rightarrow> real \<Rightarrow> real \<Rightarrow> real" where
  "lerp a b t = a + (b - a) * t"

definition hypot :: "real \<Rightarrow> real \<Rightarrow> real" where
  "hypot a b = sqrt (a * a + b * b)"

definition len :: "Vec2 \<Rightarrow> real" where
  "len v = hypot (xc v) (yc v)"

definition normalize_v :: "Vec2 \<Rightarrow> Vec2" where
  "normalize_v v =
     (let l = len v in
      if l > 0 then \<lparr>xc = xc v / l, yc = yc v / l\<rparr> else \<lparr>xc = 0, yc = 0\<rparr>)"

definition scale :: "Vec2 \<Rightarrow> real \<Rightarrow> Vec2" where
  "scale v s = \<lparr>xc = xc v * s, yc = yc v * s\<rparr>"

definition add :: "Vec2 \<Rightarrow> Vec2 \<Rightarrow> Vec2" where
  "add a b = \<lparr>xc = xc a + xc b, yc = yc a + yc b\<rparr>"

definition sub :: "Vec2 \<Rightarrow> Vec2 \<Rightarrow> Vec2" where
  "sub a b = \<lparr>xc = xc a - xc b, yc = yc a - yc b\<rparr>"

definition dist_v :: "Vec2 \<Rightarrow> Vec2 \<Rightarrow> real" where
  "dist_v a b = hypot (xc a - xc b) (yc a - yc b)"

definition rnd :: "real \<Rightarrow> real \<Rightarrow> rng \<Rightarrow> real \<times> rng" where
  "rnd mn mx g = (let (r, g') = random g in (mn + r * (mx - mn), g'))"

section \<open>Constants and lookup tables (the simulation module)\<close>

definition ARENA :: Arena where
  "ARENA = \<lparr>width = 960, height = 540\<rparr>"

definition MAX_SIZE_TIER :: real where
  "MAX_SIZE_TIER = 5"

definition APEX_HIT_COOLDOWN_SECONDS :: real where
  "APEX_HIT_COOLDOWN_SECONDS = 45 / 100"

text \<open>
  \<open>Math.round\<close> rounds halves up, as \<open>round\<close> does (\<open>round x = \<lfloor>x + 1/2\<rfloor>\<close>). The
  \<open>default\<close> branch of the source's switch (14) cannot be reached after the clamp to
  1..5; it is kept as the last branch.
\<close>

definition playerRadiusForSizeTier :: "real \<Rightarrow> real" where
  "playerRadiusForSizeTier t =
     (let n = max 1 (min (round MAX_SIZE_TIER) (round t)) in
      if n = 1 then 9 else if n = 2 then 12 else if n = 3 then 17
      else if n = 4 then 22 else if n = 5 then 31 else 14)"

definition spawnRates :: "EntityKind \<Rightarrow> EntityKind" where
  "spawnRates k = k"

fun entitySpeed :: "EntityKind \<Rightarrow> real \<Rightarrow> rng \<Rightarrow> real \<times> rng" where
  "entitySpeed Prey aggression g = rnd 70 130 g"
| "entitySpeed Predator aggression g =
     (let (v, g') = rnd 95 170 g in (v * (8 / 10 + aggression * (1 / 2)), g'))"
| "entitySpeed Apex aggression g =
     (let (v, g') = rnd 140 210 g in (v * (9 / 10 + aggression * (1 / 2)), g'))"
| "entitySpeed Hazard aggression g = rnd 55 105 g"

fun npcCruiseSpeed :: "FishSizeClass \<Rightarrow> rng \<Rightarrow> real \<times> rng" where
  "npcCruiseSpeed S1 g = rnd 95 145 g"
| "npcCruiseSpeed S2 g = rnd 85 130 g"
| "npcCruiseSpeed S3 g = rnd 78 122 g"
| "npcCruiseSpeed S4 g = rnd 72 112 g"
| "npcCruiseSpeed S5 g = rnd 70 100 g"

definition chaseSpeed :: "EntityKind \<Rightarrow> real \<Rightarrow> real" where
  "chaseSpeed k aggression =
     (if k = Predator then 95 + aggression * 55
      else if k = Apex then 120 + aggression * 75
      else 0)"

fun npcRadiusForSizeClass :: "FishSizeClass \<Rightarrow> rng \<Rightarrow> real \<times> rng" where
  "npcRadiusForSizeClass S1 g = rnd 7 10 g"
| "npcRadiusForSizeClass S2 g = rnd 10 14 g"
| "npcRadiusForSizeClass S3 g = rnd 14 19 g"
| "npcRadiusForSizeClass S4 g = rnd 19 25 g"
| "npcRadiusForSizeClass S5 g = rnd 26 36 g"

fun entityRadius :: "EntityKind \<Rightarrow> FishSizeClass option \<Rightarrow> rng \<Rightarrow> real \<times> rng" where
  "entityRadius Prey sc g =
     npcRadiusForSizeClass (case sc of Some c \<Rightarrow> c | None \<Rightarrow> S1) g"
| "entityRadius Predator sc g =
     npcRadiusForSizeClass (case sc of Some c \<Rightarrow> c | None \<Rightarrow> S3) g"
| "entityRadius Apex sc g = npcRadiusForSizeClass S5 g"
| "entityRadius Hazard sc g = rnd 14 18 g"

text \<open>\<open>fishExtents\<close> returns the pair of half-extents \<open>(rx, ry)\<close>.\<close>

definition fishExtents :: "real \<Rightarrow> real \<Rightarrow> real \<times> real" where
  "fishExtents r scaleFactor =
     (r * (134 / 100) * scaleFactor, r * (78 / 100) * scaleFactor)"

definition countByKind :: "GameState \<Rightarrow> EntityKind \<Rightarrow> nat" where
  "countByKind state k = length (filter (\<lambda>e. kind e = k) (entities state))"

definition spawnCapForKind :: "GameState \<Rightarrow> EntityKind \<Rightarrow> real" where
  "spawnCapForKind state k =
     (let d = difficulty state in
      if k = Prey then maxPrey d
      else if k = Predator then maxPredators d
      else if k = Apex then maxApex d
      else maxHazards d)"

definition spawnRateForKind :: "GameState \<Rightarrow> EntityKind \<Rightarrow> real" where
  "spawnRateForKind state k =
     (let d = difficulty state in
      if k = Prey then preySpawnPerSecond d
      else if k = Predator then predatorSpawnPerSecond d
      else if k = Apex then apexSpawnPerSecond d
      else hazardSpawnPerSecond d)"

definition isKindUnlocked :: "GameState \<Rightarrow> EntityKind \<Rightarrow> bool" where
  "isKindUnlocked state k =
     (let t = timeSeconds (run state);
          s = score (run state);
          size = sizeTier (player state) in
      if k = Prey then True
      else if k = Predator then t \<ge> 2
      else if k = Apex then
        (if key (difficulty state) = Easy then t \<ge> 24
         else if key (difficulty state) = Normal then t \<ge> 20
         else t \<ge> 16)
      else if k = Hazard then
        (if key (difficulty state) = Easy then t \<ge> 38 \<and> (s \<ge> 2500 \<or> size \<ge> 4)
         else if key (difficulty state) = Normal then t \<ge> 30 \<and> (s \<ge> 3200 \<or> size \<ge> 4)
         else t \<ge> 22 \<and> (s \<ge> 4000 \<or> size \<ge> 4))
      else True)"

text \<open>
  \<open>pickNpcSizeForSpawn\<close> draws \<open>r\<close> before it looks at the channel, so it consumes
  one draw on every path. Its channel is \<open>Prey\<close> or \<open>Predator\<close>.
\<close>

definition pickNpcSizeForSpawn :: "GameState \<Rightarrow> EntityKind \<Rightarrow> rng \<Rightarrow> FishSizeClass \<times> rng" where
  "pickNpcSizeForSpawn state channel g =
     (let p = sizeTier (player state);
          t = timeSeconds (run state);
          (r, g') = random g in
      (if channel = Prey then
         (if t < 12 then (if r < 8 / 10 then S1 else S2)
          else if p \<le> 1 then (if r < 78 / 100 then S1 else S2)
          else if p = 2 then (if r < 58 / 100 then S1 else if r < 93 / 100 then S2 else S3)
          else if p = 3 then
            (if r < 18 / 100 then S1 else if r < 52 / 100 then S2
             else if r < 92 / 100 then S3 else S4)
          else (if r < 22 / 100 then S2 else if r < 62 / 100 then S3 else S4))
       else
         (if t < 10 then S2
          else if p \<le> 1 then (if r < 78 / 100 then S2 else S3)
          else if p = 2 then (if r < 1 / 2 then S2 else if r < 92 / 100 then S3 else S4)
          else if p = 3 then (if r < 42 / 100 then S3 else S4)
          else (if r < 52 / 100 then S3 else S4)),
       g'))"

definition isNpcEdible :: "real \<Rightarrow> FishSizeClass \<Rightarrow> bool" where
  "isNpcEdible playerTier npcSize = (classNum npcSize \<le> playerTier)"

definition doesNpcAttackPlayer :: "real \<Rightarrow> FishSizeClass \<Rightarrow> bool" where
  "doesNpcAttackPlayer playerTier npcSize = (classNum npcSize > playerTier)"

text \<open>
  \<open>entity.sizeClass\<close> is tested for truthiness in the source; a defined size class is
  one of 1..5 and so truthy, \<open>undefined\<close> is \<open>None\<close>.
\<close>

definition canEat :: "real \<Rightarrow> Entity \<Rightarrow> bool" where
  "canEat playerTier entity =
     (case sizeClass entity of
        Some c \<Rightarrow>
          if kind entity = Prey \<or> kind entity = Predator then isNpcEdible playerTier c
          else False
      | None \<Rightarrow> False)"

definition pointsForEat :: "Entity \<Rightarrow> real \<Rightarrow> real" where
  "pointsForEat entity multiplier =
     (let base =
        (case sizeClass entity of
           Some c \<Rightarrow>
             if kind entity = Prey \<or> kind entity = Predator then
               (if c = S1 then 90 else if c = S2 then 135 else if c = S3 then 175 else 225)
             else 0
         | None \<Rightarrow> 0)
      in of_int \<lfloor>base * multiplier\<rfloor>)"

definition pointsForApexTailHit :: "real \<Rightarrow> real" where
  "pointsForApexTailHit multiplier = of_int \<lfloor>500 * multiplier\<rfloor>"

definition apexTailDamageForPlayer :: "real \<Rightarrow> real" where
  "apexTailDamageForPlayer playerTier =
     (if playerTier \<ge> 5 then 3 else if playerTier \<ge> 3 then 2 else 1)"

definition milestoneForScore :: "real \<Rightarrow> real" where
  "milestoneForScore sc = of_int \<lfloor>sc / 1000\<rfloor>"

text \<open>
  The overlap test divides by \<open>rx * rx\<close> and \<open>ry * ry\<close>. In the source a zero divisor
  makes the quotient \<open>Infinity\<close> or \<open>NaN\<close>, and then the comparison \<open>\<le> 1\<close> is false;
  the model says so, since HOL's \<open>x / 0\<close> is \<open>0\<close>.
\<close>

definition overlapsFishFootprint :: "PlayerState \<Rightarrow> Entity \<Rightarrow> real \<Rightarrow> real \<Rightarrow> bool" where
  "overlapsFishFootprint pl entity playerScale enemyScale =
     (let (prx, pry) = fishExtents (pradius pl) playerScale;
          (erx0, ery0) =
            (if kind entity = Hazard
             then (radius entity * enemyScale, radius entity * enemyScale)
             else fishExtents (radius entity) enemyScale);
          (erx, ery) =
            (if kind entity = Apex then (erx0 * (118 / 100), ery0 * (96 / 100))
             else (erx0, ery0));
          dx = \<bar>xc (ppos pl) - xc (pos entity)\<bar>;
          dy = \<bar>yc (ppos pl) - yc (pos entity)\<bar>;
          rx = prx + erx;
          ry = pry + ery
      in rx * rx \<noteq> 0 \<and> ry * ry \<noteq> 0
         \<and> (dx * dx) / (rx * rx) + (dy * dy) / (ry * ry) \<le> 1)"

section \<open>Creating and resetting the world\<close>

text \<open>
  The table \<open>difficulties\<close> of config.ts is a parameter: a function from the key to
  its profile. \<open>createInitialGameState\<close> draws once, for the seed.
\<close>

definition createInitialGameState ::
    "(DifficultyKey \<Rightarrow> DifficultyProfile) \<Rightarrow> DifficultyKey \<Rightarrow> rng \<Rightarrow> GameState \<times> rng" where
  "createInitialGameState difficulties difficultyKey g =
     (let d = difficulties difficultyKey;
          (r, g') = random g in
      (\<lparr>seed = of_int \<lfloor>r * 1000000000\<rfloor>,
        elapsedMs = 0,
        mode = Title,
        arena = ARENA,
        difficulty = d,
        player = \<lparr>ppos = \<lparr>xc = width ARENA * (22 / 100), yc = height ARENA * (1 / 2)\<rparr>,
                   pvel = \<lparr>xc = 0, yc = 0\<rparr>,
                   pradius = playerRadiusForSizeTier 2,
                   sizeTier = 2,
                   lives = startingLives d,
                   invulnerableUntil = 0\<rparr>,
        entities = [],
        run = \<lparr>score = 0, timeSeconds = 0, preyEaten = 0, predatorsAvoided = 0,
                nextGrowthScore = 1000, nextExtraLifeScore = 6000, milestone = 0\<rparr>,
        nextEntityId = 1,
        spawnTimers = (\<lambda>k. 0),
        apexThreat = \<lparr>activeCount = 0, intensity = 0,
                       threatLastHitAt = - 999, lastKillAt = - 999\<rparr>,
        pendingEvents = []\<rparr>, g'))"

definition startNewRun ::
    "(DifficultyKey \<Rightarrow> DifficultyProfile) \<Rightarrow> GameState \<Rightarrow> rng \<Rightarrow> GameState \<times> rng" where
  "startNewRun difficulties state g =
     (let (fresh, g') = createInitialGameState difficulties (key (difficulty state)) g
      in (fresh\<lparr>mode := Playing\<rparr>, g'))"

definition setMode :: "GameState \<Rightarrow> GameModeState \<Rightarrow> GameState" where
  "setMode state m = state\<lparr>mode := m\<rparr>"

definition setDifficulty ::
    "(DifficultyKey \<Rightarrow> DifficultyProfile) \<Rightarrow> GameState \<Rightarrow> DifficultyKey \<Rightarrow> rng \<Rightarrow> GameState \<times> rng" where
  "setDifficulty difficulties state difficultyKey g =
     (let (next, g') = createInitialGameState difficulties difficultyKey g
      in (next\<lparr>mode := Title\<rparr>, g'))"

section \<open>Spawning\<close>

text \<open>\<open>wrap\<close> mutates the position of its argument; the model returns the new position.\<close>

definition wrap :: "GameState \<Rightarrow> Vec2 \<Rightarrow> real \<Rightarrow> Vec2" where
  "wrap state p r =
     (let W = width (arena state);
          H = height (arena state);
          x1 = (if xc p < - r then W + r else xc p);
          x2 = (if x1 > W + r then - r else x1);
          y1 = (if yc p < - r then H + r else yc p);
          y2 = (if y1 > H + r then - r else y1)
      in \<lparr>xc = x2, yc = y2\<rparr>)"

text \<open>
  \<open>spawnAtEdge\<close> draws in the order of the source: the size (prey and predator only),
  the edge, the radius, the coordinate along the edge, the two components of the random
  bias, the speed and, for an apex, the tail-window bias.
\<close>

definition spawnAtEdge :: "GameState \<Rightarrow> EntityKind \<Rightarrow> rng \<Rightarrow> Entity \<times> rng" where
  "spawnAtEdge state k g0 =
     (let (npcSize, g1) =
            (if k = Prey \<or> k = Predator
             then (let (c, g) = pickNpcSizeForSpawn state k g0 in (Some c, g))
             else (None, g0));
          (ev, g2) = rnd 0 4 g1;
          edge = \<lfloor>ev\<rfloor>;
          (r, g3) = entityRadius k npcSize g2;
          W = width (arena state);
          H = height (arena state);
          (pos0, g4) =
            (if edge = 0 then (let (v, g) = rnd 0 H g3 in (\<lparr>xc = - r, yc = v\<rparr>, g))
             else (\<lparr>xc = 0, yc = 0\<rparr>, g3));
          (pos1, g5) =
            (if edge = 1 then (let (v, g) = rnd 0 H g4 in (\<lparr>xc = W + r, yc = v\<rparr>, g))
             else (pos0, g4));
          (pos2, g6) =
            (if edge = 2 then (let (v, g) = rnd 0 W g5 in (\<lparr>xc = v, yc = - r\<rparr>, g))
             else (pos1, g5));
          (p, g7) =
            (if edge = 3 then (let (v, g) = rnd 0 W g6 in (\<lparr>xc = v, yc = H + r\<rparr>, g))
             else (pos2, g6));
          toCenter = normalize_v (sub \<lparr>xc = W / 2, yc = H / 2\<rparr> p);
          d = difficulty state;
          aggr = (if k = Predator then predatorAggression d
                  else if k = Apex then apexAggression d else 2 / 10);
          (bx, g8) = rnd (- 1) 1 g7;
          (by, g9) = rnd (- 1) 1 g8;
          randomBias = normalize_v \<lparr>xc = bx, yc = by\<rparr>;
          heading = normalize_v \<lparr>xc = lerp (xc randomBias) (xc toCenter) aggr,
                                 yc = lerp (yc randomBias) (yc toCenter) aggr\<rparr>;
          (speed, g10) =
            (case npcSize of Some c \<Rightarrow> npcCruiseSpeed c g9 | None \<Rightarrow> entitySpeed k aggr g9);
          entity = \<lparr>eid = nextEntityId state,
                    kind = k,
                    sizeClass = (if k = Apex then Some S5 else npcSize),
                    variant = Some 1,
                    pos = p,
                    vel = scale heading speed,
                    radius = r,
                    combat = None\<rparr>
      in if k = Apex then
           (let mh = apexMaxHealth (difficulty state);
                (bias, g11) = rnd (52 / 100) (68 / 100) g10
            in (entity\<lparr>combat := Some \<lparr>maxHealth = mh, health = mh, tailWindowBias = bias,
                                        flashUntil = - 1, lastHitAt = - 999\<rparr>\<rparr>, g11))
         else (entity, g10))"

text \<open>
  \<open>spawnKind\<close> is the body of the \<open>forEach\<close> of \<open>maybeSpawn\<close> for one kind; the state
  and the source of draws are threaded through the four kinds in the source's order.
\<close>

definition spawnKind :: "real \<Rightarrow> EntityKind \<Rightarrow> GameState \<times> rng \<Rightarrow> GameState \<times> rng" where
  "spawnKind dt k sg =
     (let (state, g) = sg in
      if \<not> isKindUnlocked state k then (state, g)
      else
        (let state1 = state\<lparr>spawnTimers :=
                        (spawnTimers state)(spawnRates k := spawnTimers state (spawnRates k) + dt)\<rparr>;
             rate = spawnRateForKind state1 k
         in if rate \<le> 0 then (state1, g)
            else
              (let interval = 1 / rate in
               if spawnTimers state1 k \<ge> interval
                  \<and> real (countByKind state1 k) < spawnCapForKind state1 k
               then
                 (let state2 = state1\<lparr>spawnTimers := (spawnTimers state1)(k := 0)\<rparr>;
                      (entity, g') = spawnAtEdge state2 k g;
                      state3 = state2\<lparr>entities := entities state2 @ [entity]\<rparr>
                  in (state3\<lparr>nextEntityId := nextEntityId state3 + 1\<rparr>, g'))
               else (state1, g))))"

definition maybeSpawn :: "GameState \<Rightarrow> real \<Rightarrow> rng \<Rightarrow> GameState \<times> rng" where
  "maybeSpawn state dt g = foldl (\<lambda>sg k. spawnKind dt k sg) (state, g) [Prey, Predator, Apex, Hazard]"

section \<open>Steering\<close>

text \<open>
  \<open>updateEntityAI\<close> mutates the entity; the model returns it. The flee branch calls
  \<open>npcCruiseSpeed\<close>, which draws.
\<close>

definition updateEntityAI :: "GameState \<Rightarrow> Entity \<Rightarrow> real \<Rightarrow> rng \<Rightarrow> Entity \<times> rng" where
  "updateEntityAI state entity dt g =
     (let tier = sizeTier (player state);
          (e1, g1) =
            (if kind entity = Prey \<or> kind entity = Predator then
               (let npcSize = (case sizeClass entity of
                                 Some c \<Rightarrow> c
                               | None \<Rightarrow> (if kind entity = Prey then S1 else S3));
                    sizeDelta = classNum npcSize - tier;
                    distanceToPlayer = dist_v (pos entity) (ppos (player state))
                in if \<not> doesNpcAttackPlayer tier npcSize
                      \<and> distanceToPlayer < 68 + classNum npcSize * 10 then
                     (let away = normalize_v (sub (pos entity) (ppos (player state)));
                          (cruise, g') = npcCruiseSpeed npcSize g;
                          fleeSpeed = cruise + 10;
                          target = scale away fleeSpeed;
                          fleeTurn = 25 / 1000 + max 0 (tier - classNum npcSize) * (6 / 1000)
                      in (entity\<lparr>vel := \<lparr>xc = lerp (xc (vel entity)) (xc target) fleeTurn,
                                          yc = lerp (yc (vel entity)) (yc target) fleeTurn\<rparr>\<rparr>, g'))
                   else if doesNpcAttackPlayer tier npcSize then
                     (let chase = normalize_v (sub (ppos (player state)) (pos entity));
                          aggression = clamp (predatorAggression (difficulty state)
                                              + max 0 (sizeDelta - 1) * (8 / 100)) (2 / 10) 1;
                          targetSpeed = 88 + classNum npcSize * 10 + aggression * 36;
                          target = scale chase targetSpeed;
                          turn = (22 / 1000 + aggression * (45 / 1000)) * dt * 60
                      in (entity\<lparr>vel := \<lparr>xc = lerp (xc (vel entity)) (xc target) turn,
                                          yc = lerp (yc (vel entity)) (yc target) turn\<rparr>\<rparr>, g))
                   else (entity, g))
             else (entity, g));
          e2 =
            (if kind e1 = Apex then
               (let chase = normalize_v (sub (ppos (player state)) (pos e1));
                    aggression = apexAggression (difficulty state);
                    targetSpeed = chaseSpeed (kind e1) aggression;
                    target = scale chase targetSpeed;
                    turn = (18 / 1000 + aggression * (3 / 100)) * dt * 60
                in e1\<lparr>vel := \<lparr>xc = lerp (xc (vel e1)) (xc target) turn,
                               yc = lerp (yc (vel e1)) (yc target) turn\<rparr>\<rparr>)
             else e1);
          e3 =
            (if kind e2 = Hazard then
               e2\<lparr>vel := (vel e2)\<lparr>yc := yc (vel e2)
                              + sin ((elapsedMs state + eid e2 * 47) / 400) * (4 / 10)\<rparr>\<rparr>
             else e2);
          e4 = e3\<lparr>pos := add (pos e3) (scale (vel e3) dt)\<rparr>
      in (e4\<lparr>pos := wrap state (pos e4) (radius e4)\<rparr>, g1))"

text \<open>The \<open>forEach\<close> over the entities, in order, threading the source of draws.\<close>

fun updateEntitiesAI :: "GameState \<Rightarrow> real \<Rightarrow> Entity list \<Rightarrow> rng \<Rightarrow> Entity list \<times> rng" where
  "updateEntitiesAI state dt [] g = ([], g)"
| "updateEntitiesAI state dt (e # es) g =
     (let (e', g') = updateEntityAI state e dt g;
          (es', g'') = updateEntitiesAI state dt es g'
      in (e' # es', g''))"

section \<open>Collision and combat\<close>

definition resetPlayerAfterHit :: "GameState \<Rightarrow> rng \<Rightarrow> GameState \<times> rng" where
  "resetPlayerAfterHit state g =
     (let (v, g') = rnd 100 (height (arena state) - 100) g;
          state1 = state\<lparr>player := (player state)\<lparr>ppos := \<lparr>xc = width (arena state) * (18 / 100), yc = v\<rparr>\<rparr>\<rparr>;
          state2 = state1\<lparr>player := (player state1)\<lparr>pvel := \<lparr>xc = 0, yc = 0\<rparr>\<rparr>\<rparr>;
          state3 = state2\<lparr>player := (player state2)\<lparr>invulnerableUntil :=
                      timeSeconds (run state2) + graceSecondsAfterRespawn (difficulty state2)\<rparr>\<rparr>
      in (state3\<lparr>entities := filter (\<lambda>e. dist_v (pos e) (ppos (player state3)) > 120) (entities state3)\<rparr>, g'))"

text \<open>
  \<open>handlePlayerCollision\<close> mutates the state and the entity and returns
  \<open>{consumed, events}\<close>; the model returns all of them, with the rest of the draws.
\<close>

record Collision =
  cstate :: GameState
  centity :: Entity
  consumed :: bool
  events :: "GameEvent list"
  crng :: rng

text \<open>The local constants \<open>tailHitOpen\<close> and \<open>hitCooldownReady\<close> of the apex branch.\<close>

definition tailHitOpen :: "GameState \<Rightarrow> Entity \<Rightarrow> Combat \<Rightarrow> bool" where
  "tailHitOpen state entity c =
     (let dx = xc (ppos (player state)) - xc (pos entity);
          apexFacingX = (if xc (vel entity) = 0 then 1 else sgn (xc (vel entity)));
          behindApex = (dx * apexFacingX < 0);
          tailBandWidth = radius entity * (8 / 10 + tailWindowBias c)
                          * apexTailHitLeniency (difficulty state);
          nearTail = (\<bar>dx\<bar> \<ge> tailBandWidth * (24 / 100))
      in behindApex \<and> nearTail)"

definition hitCooldownReady :: "GameState \<Rightarrow> Combat \<Rightarrow> bool" where
  "hitCooldownReady state c =
     (timeSeconds (run state) - lastHitAt c \<ge> APEX_HIT_COOLDOWN_SECONDS)"

text \<open>
  The body of \<open>if (tailHitOpen && hitCooldownReady)\<close>. The quotient
  \<open>health / maxHealth\<close> is the source's only for \<open>maxHealth \<noteq> 0\<close>.
\<close>

definition applyTailHit :: "GameState \<Rightarrow> Entity \<Rightarrow> Combat \<Rightarrow> rng \<Rightarrow> Collision" where
  "applyTailHit state entity c g =
     (let d = difficulty state;
          now = timeSeconds (run state);
          damage = apexTailDamageForPlayer (sizeTier (player state));
          c' = c\<lparr>lastHitAt := now, flashUntil := now + 18 / 100, health := health c - damage\<rparr>;
          entity' = entity\<lparr>combat := Some c'\<rparr>;
          points = pointsForApexTailHit (scoreMultiplier d);
          hitIntensity = clamp (1 - health c' / maxHealth c') 0 1;
          state1 = state\<lparr>run := (run state)\<lparr>score := score (run state) + points\<rparr>,
                         apexThreat := (apexThreat state)\<lparr>threatLastHitAt := now,
                            intensity := max (intensity (apexThreat state)) hitIntensity\<rparr>\<rparr>;
          events1 = [EvApexHit (eid entity) damage (max (health c') 0) (maxHealth c') points (pos entity),
                     EvScore points,
                     EvApexIntensity (intensity (apexThreat state1))]
      in if health c' \<le> 0 then
           (let killBonus = points * 2;
                state2 = state1\<lparr>apexThreat := (apexThreat state1)\<lparr>lastKillAt := now, intensity := 0\<rparr>,
                                run := (run state1)\<lparr>score := score (run state1) + killBonus\<rparr>\<rparr>
            in \<lparr>cstate = state2, centity = entity', consumed = True,
                events = events1 @ [EvScore killBonus, EvApexKilled (eid entity) killBonus (pos entity)],
                crng = g\<rparr>)
         else \<lparr>cstate = state1, centity = entity', consumed = False, events = events1, crng = g\<rparr>)"

text \<open>
  The rest of the function, from \<open>const edible\<close> on: eating, or hostile contact. It is
  reached by every overlap that is not a successful tail hit, an apex's included.
\<close>

definition eatOrHostile :: "GameState \<Rightarrow> Entity \<Rightarrow> rng \<Rightarrow> Collision" where
  "eatOrHostile state entity g =
     (let d = difficulty state;
          invulnerable = (timeSeconds (run state) < invulnerableUntil (player state));
          edible = canEat (sizeTier (player state)) entity
      in if edible then
           (let points = pointsForEat entity (scoreMultiplier d);
                state1 = state\<lparr>run := (run state)\<lparr>score := score (run state) + points\<rparr>\<rparr>;
                state2 = (if kind entity = Prey \<or> kind entity = Predator
                          then state1\<lparr>run := (run state1)\<lparr>preyEaten := preyEaten (run state1) + 1\<rparr>\<rparr>
                          else state1)
            in \<lparr>cstate = state2, centity = entity, consumed = True,
                events = [EvEat (kind entity) (sizeClass entity), EvScore points], crng = g\<rparr>)
         else if \<not> invulnerable then
           (let state1 = state\<lparr>player := (player state)\<lparr>lives := lives (player state) - 1\<rparr>\<rparr>;
                events1 = [EvPlayerHit (lives (player state1))]
            in if lives (player state1) \<le> 0 then
                 \<lparr>cstate = state1\<lparr>mode := GameOver\<rparr>, centity = entity, consumed = False,
                  events = events1 @ [EvGameOver (score (run state1))], crng = g\<rparr>
               else
                 (let (state2, g') = resetPlayerAfterHit state1 g
                  in \<lparr>cstate = state2, centity = entity, consumed = False,
                      events = events1, crng = g'\<rparr>))
         else \<lparr>cstate = state, centity = entity, consumed = False, events = [], crng = g\<rparr>)"

definition handlePlayerCollision :: "GameState \<Rightarrow> Entity \<Rightarrow> rng \<Rightarrow> Collision" where
  "handlePlayerCollision state entity g =
     (let d = difficulty state in
      if \<not> overlapsFishFootprint (player state) entity (playerHitboxScale d) (enemyHitboxScale d)
      then \<lparr>cstate = state, centity = entity, consumed = False, events = [], crng = g\<rparr>
      else
        (case (if kind entity = Apex then combat entity else None) of
           Some c \<Rightarrow>
             if tailHitOpen state entity c \<and> hitCooldownReady state c
             then applyTailHit state entity c g
             else eatOrHostile state entity g
         | None \<Rightarrow> eatOrHostile state entity g))"

text \<open>
  The \<open>for ... of\<close> loop of \<open>tickGame\<close>. It iterates over the array that
  \<open>state.entities\<close> held when the loop began: \<open>resetPlayerAfterHit\<close> assigns a new,
  filtered array to \<open>state.entities\<close>, which the loop neither iterates nor reads again.
  The entities are objects shared by both arrays, so the survivors carry the mutations
  of the handler. The accumulator is the state, the survivors so far and the draws.
\<close>

fun collideAll :: "Entity list \<Rightarrow> GameState \<times> Entity list \<times> rng \<Rightarrow> GameState \<times> Entity list \<times> rng" where
  "collideAll [] acc = acc"
| "collideAll (entity # rest) (state, survivors, g) =
     (let result = handlePlayerCollision state entity g;
          state1 = (cstate result)\<lparr>pendingEvents := pendingEvents (cstate result) @ events result\<rparr>;
          survivors1 = (if \<not> consumed result then survivors @ [centity result] else survivors)
      in collideAll rest (state1, survivors1, crng result))"

section \<open>Progression\<close>

text \<open>The two branches of the body of the growth loop.\<close>

definition growStep :: "GameState \<Rightarrow> GameState" where
  "growStep state =
     (let state1 = state\<lparr>player := (player state)\<lparr>sizeTier := sizeTier (player state) + 1\<rparr>\<rparr>;
          state2 = state1\<lparr>player := (player state1)\<lparr>pradius :=
                      playerRadiusForSizeTier (sizeTier (player state1))\<rparr>\<rparr>;
          state3 = state2\<lparr>pendingEvents := pendingEvents state2 @ [EvGrowth (sizeTier (player state2))]\<rparr>;
          state4 = state3\<lparr>run := (run state3)\<lparr>nextGrowthScore := nextGrowthScore (run state3) + 1000\<rparr>\<rparr>
      in if sizeTier (player state4) = MAX_SIZE_TIER
            \<and> nextExtraLifeScore (run state4) < nextGrowthScore (run state4)
         then state4\<lparr>run := (run state4)\<lparr>nextExtraLifeScore := nextGrowthScore (run state4)\<rparr>\<rparr>
         else state4)"

definition extraLifeStep :: "GameState \<Rightarrow> GameState" where
  "extraLifeStep state =
     (let state1 = state\<lparr>player := (player state)\<lparr>lives := lives (player state) + 1\<rparr>\<rparr>;
          state2 = state1\<lparr>pendingEvents := pendingEvents state1 @ [EvExtraLife (lives (player state1))]\<rparr>
      in state2\<lparr>run := (run state2)\<lparr>nextExtraLifeScore :=
                   nextExtraLifeScore (run state2) + extraLifeScoreStep (difficulty state2)\<rparr>\<rparr>)"

text \<open>
  The \<open>while\<close> loop of \<open>updateGrowthAndLives\<close>. At the maximal tier it does not end
  when \<open>extraLifeScoreStep \<le> 0\<close> and the score has reached the extra-life threshold;
  not returning is \<open>None\<close>.
\<close>

partial_function (option) growthLoop :: "GameState \<Rightarrow> GameState option" where
  "growthLoop state =
     (if score (run state) \<ge> nextGrowthScore (run state) then
        (if sizeTier (player state) < MAX_SIZE_TIER then growthLoop (growStep state)
         else if score (run state) \<ge> nextExtraLifeScore (run state) then growthLoop (extraLifeStep state)
         else Some state)
      else Some state)"

definition milestoneStep :: "GameState \<Rightarrow> GameState" where
  "milestoneStep state =
     (let m = milestoneForScore (score (run state)) in
      if m > milestone (run state) then
        (let state1 = state\<lparr>run := (run state)\<lparr>milestone := m\<rparr>\<rparr>
         in state1\<lparr>pendingEvents := pendingEvents state1 @ [EvMilestone m]\<rparr>)
      else state)"

definition updateGrowthAndLives :: "GameState \<Rightarrow> GameState option" where
  "updateGrowthAndLives state =
     (case growthLoop state of None \<Rightarrow> None | Some state1 \<Rightarrow> Some (milestoneStep state1))"

text \<open>
  \<open>reduce\<close> is a left fold from 0; an apex without a combat record adds nothing to the
  sum and still counts in the length.
\<close>

definition updateApexThreatState :: "GameState \<Rightarrow> GameState" where
  "updateApexThreatState state =
     (let apexEntities = filter (\<lambda>e. kind e = Apex) (entities state);
          state1 = state\<lparr>apexThreat := (apexThreat state)\<lparr>activeCount := real (length apexEntities)\<rparr>\<rparr>
      in if length apexEntities = 0 then
           state1\<lparr>apexThreat := (apexThreat state1)\<lparr>intensity :=
                     max 0 (intensity (apexThreat state1) - 2 / 100)\<rparr>\<rparr>
         else
           (let aggregateDamage =
                  foldl (\<lambda>sum e. case combat e of
                                     None \<Rightarrow> sum
                                   | Some c \<Rightarrow> sum + (1 - health c / maxHealth c))
                        0 apexEntities;
                avgDamage = aggregateDamage / real (length apexEntities)
            in state1\<lparr>apexThreat := (apexThreat state1)\<lparr>intensity :=
                         max (intensity (apexThreat state1) * (985 / 1000)) avgDamage\<rparr>\<rparr>))"

section \<open>The step\<close>

text \<open>
  \<open>tickGame\<close> copies the previous state, so the caller's value is not mutated; in the
  model every state is a value. The result is \<open>None\<close> when the growth loop does not
  return. \<open>movePlayer\<close> is the player's part of the step (the lines from \<open>moveDir\<close> to
  the two clamps).
\<close>

definition movePlayer :: "GameState \<Rightarrow> InputState \<Rightarrow> real \<Rightarrow> GameState" where
  "movePlayer state input dt =
     (let moveDir = normalize_v (movement input);
          desiredVel = scale moveDir (playerSpeed (difficulty state));
          turn = playerTurnLerp (difficulty state);
          v = \<lparr>xc = lerp (xc (pvel (player state))) (xc desiredVel) turn,
               yc = lerp (yc (pvel (player state))) (yc desiredVel) turn\<rparr>;
          p = add (ppos (player state)) (scale v dt);
          p' = \<lparr>xc = clamp (xc p) 0 (width (arena state)),
                yc = clamp (yc p) 0 (height (arena state))\<rparr>
      in state\<lparr>player := (player state)\<lparr>pvel := v, ppos := p'\<rparr>\<rparr>)"

text \<open>
  \<open>playTick\<close> is the part of \<open>tickGame\<close> after the mode gate, the simulation proper.
\<close>

definition playTick :: "GameState \<Rightarrow> InputState \<Rightarrow> real \<Rightarrow> rng \<Rightarrow> (GameState \<times> rng) option" where
  "playTick state1 input dtMs g =
     (let dt = clamp (dtMs / 1000) 0 (5 / 100);
          state2 = state1\<lparr>run := (run state1)\<lparr>timeSeconds := timeSeconds (run state1) + dt\<rparr>\<rparr>;
          (state3, g1) = maybeSpawn state2 dt g;
          state4 = movePlayer state3 input dt;
          (ents, g2) = updateEntitiesAI state4 dt (entities state4) g1;
          state5 = state4\<lparr>entities := ents\<rparr>;
          (state6, survivors, g3) = collideAll (entities state5) (state5, [], g2);
          state7 = state6\<lparr>entities := survivors\<rparr>
      in case updateGrowthAndLives state7 of
           None \<Rightarrow> None
         | Some state8 \<Rightarrow> Some (updateApexThreatState state8, g3))"

definition tickGame :: "GameState \<Rightarrow> InputState \<Rightarrow> real \<Rightarrow> rng \<Rightarrow> (GameState \<times> rng) option" where
  "tickGame prev input dtMs g =
     (let state0 = prev\<lparr>elapsedMs := elapsedMs prev + dtMs, pendingEvents := []\<rparr>;
          state1 = (if pausePressed input \<and> mode state0 = Playing then state0\<lparr>mode := Paused\<rparr>
                    else if pausePressed input \<and> mode state0 = Paused then state0\<lparr>mode := Playing\<rparr>
                    else state0)
      in if mode state1 \<noteq> Playing then Some (state1, g)
         else playTick state1 input dtMs g)"

section \<open>Notions used by the properties\<close>

text \<open>
  The damage fraction of an entity, \<open>1 - health / maxHealth\<close>; an entity without a
  combat record has none.
\<close>

definition damageFraction :: "Entity \<Rightarrow> real" where
  "damageFraction e = (case combat e of None \<Rightarrow> 0 | Some c \<Rightarrow> 1 - health c / maxHealth c)"

text \<open>
  The quotient \<open>health / maxHealth\<close> of the source is a real number only for a divisor
  other than zero; properties that speak of its value are stated for such states.
\<close>

definition apexHealthDefined :: "GameState \<Rightarrow> bool" where
  "apexHealthDefined state =
     list_all (\<lambda>e. case combat e of None \<Rightarrow> True | Some c \<Rightarrow> maxHealth c \<noteq> 0) (entities state)"

text \<open>
  A tick simulates when the mode is playing after the pause toggle of its input.
\<close>

definition playsThisTick :: "GameState \<Rightarrow> InputState \<Rightarrow> bool" where
  "playsThisTick s i =
     ((mode s = Playing \<and> \<not> pausePressed i) \<or> (mode s = Paused \<and> pausePressed i))"

fun isMilestone :: "GameEvent \<Rightarrow> bool" where
  "isMilestone (EvMilestone v) = True"
| "isMilestone e = False"

fun isGrowth :: "GameEvent \<Rightarrow> bool" where
  "isGrowth (EvGrowth v) = True"
| "isGrowth e = False"

text \<open>The growth events of \<open>n\<close> successive tiers above \<open>tier\<close>, in order.\<close>

definition growthEvents :: "real \<Rightarrow> nat \<Rightarrow> GameEvent list" where
  "growthEvents tier n = map (\<lambda>j. EvGrowth (tier + 1 + real j)) [0..<n]"

text \<open>
  \<open>worldStep\<close> names the part of \<open>playTick\<close> before the progression: the clock, the
  spawner, the player's move, the steering and the collisions.
\<close>

definition worldStep :: "GameState \<Rightarrow> InputState \<Rightarrow> real \<Rightarrow> rng \<Rightarrow> GameState \<times> rng" where
  "worldStep state1 input dtMs g =
     (let dt = clamp (dtMs / 1000) 0 (5 / 100);
          state2 = state1\<lparr>run := (run state1)\<lparr>timeSeconds := timeSeconds (run state1) + dt\<rparr>\<rparr>;
          (state3, g1) = maybeSpawn state2 dt g;
          state4 = movePlayer state3 input dt;
          (ents, g2) = updateEntitiesAI state4 dt (entities state4) g1;
          state5 = state4\<lparr>entities := ents\<rparr>;
          (state6, survivors, g3) = collideAll (entities state5) (state5, [], g2)
      in (state6\<lparr>entities := survivors\<rparr>, g3))"

text \<open>
  The two parts of \<open>updateEntityAI\<close>: the block for prey and predators, which alone
  may draw, and the rest (the apex block, the hazard block, the integration, the wrap).
\<close>

definition steerNpc :: "GameState \<Rightarrow> Entity \<Rightarrow> real \<Rightarrow> rng \<Rightarrow> Entity \<times> rng" where
  "steerNpc state entity dt g =
     (let tier = sizeTier (player state) in
      if kind entity = Prey \<or> kind entity = Predator then
        (let npcSize = (case sizeClass entity of
                          Some c \<Rightarrow> c
                        | None \<Rightarrow> (if kind entity = Prey then S1 else S3));
             sizeDelta = classNum npcSize - tier;
             distanceToPlayer = dist_v (pos entity) (ppos (player state))
         in if \<not> doesNpcAttackPlayer tier npcSize
               \<and> distanceToPlayer < 68 + classNum npcSize * 10 then
              (let away = normalize_v (sub (pos entity) (ppos (player state)));
                   (cruise, g') = npcCruiseSpeed npcSize g;
                   fleeSpeed = cruise + 10;
                   target = scale away fleeSpeed;
                   fleeTurn = 25 / 1000 + max 0 (tier - classNum npcSize) * (6 / 1000)
               in (entity\<lparr>vel := \<lparr>xc = lerp (xc (vel entity)) (xc target) fleeTurn,
                                   yc = lerp (yc (vel entity)) (yc target) fleeTurn\<rparr>\<rparr>, g'))
            else if doesNpcAttackPlayer tier npcSize then
              (let chase = normalize_v (sub (ppos (player state)) (pos entity));
                   aggression = clamp (predatorAggression (difficulty state)
                                       + max 0 (sizeDelta - 1) * (8 / 100)) (2 / 10) 1;
                   targetSpeed = 88 + classNum npcSize * 10 + aggression * 36;
                   target = scale chase targetSpeed;
                   turn = (22 / 1000 + aggression * (45 / 1000)) * dt * 60
               in (entity\<lparr>vel := \<lparr>xc = lerp (xc (vel entity)) (xc target) turn,
                                   yc = lerp (yc (vel entity)) (yc target) turn\<rparr>\<rparr>, g))
            else (entity, g))
      else (entity, g))"

definition steerRest :: "GameState \<Rightarrow> Entity \<Rightarrow> real \<Rightarrow> Entity" where
  "steerRest state e1 dt =
     (let e2 =
            (if kind e1 = Apex then
               (let chase = normalize_v (sub (ppos (player state)) (pos e1));
                    aggression = apexAggression (difficulty state);
                    targetSpeed = chaseSpeed (kind e1) aggression;
                    target = scale chase targetSpeed;
                    turn = (18 / 1000 + aggression * (3 / 100)) * dt * 60
                in e1\<lparr>vel := \<lparr>xc = lerp (xc (vel e1)) (xc target) turn,
                               yc = lerp (yc (vel e1)) (yc target) turn\<rparr>\<rparr>)
             else e1);
          e3 =
            (if kind e2 = Hazard then
               e2\<lparr>vel := (vel e2)\<lparr>yc := yc (vel e2)
                              + sin ((elapsedMs state + eid e2 * 47) / 400) * (4 / 10)\<rparr>\<rparr>
             else e2);
          e4 = e3\<lparr>pos := add (pos e3) (scale (vel e3) dt)\<rparr>
      in e4\<lparr>pos := wrap state (pos e4) (radius e4)\<rparr>)"

text \<open>What the spawner leaves as it is, and what the whole of \<open>worldStep\<close> does.\<close>

definition spawnFrame :: "GameState \<Rightarrow> GameState \<Rightarrow> bool" where
  "spawnFrame s s' =
     (seed s' = seed s \<and> elapsedMs s' = elapsedMs s \<and> mode s' = mode s \<and> arena s' = arena s
      \<and> difficulty s' = difficulty s \<and> player s' = player s \<and> run s' = run s
      \<and> apexThreat s' = apexThreat s \<and> pendingEvents s' = pendingEvents s)"

definition stepFrame :: "GameState \<Rightarrow> GameState \<Rightarrow> bool" where
  "stepFrame s s' =
     (difficulty s' = difficulty s \<and> arena s' = arena s
      \<and> sizeTier (player s') = sizeTier (player s) \<and> pradius (player s') = pradius (player s)
      \<and> nextGrowthScore (run s') = nextGrowthScore (run s)
      \<and> nextExtraLifeScore (run s') = nextExtraLifeScore (run s)
      \<and> milestone (run s') = milestone (run s)
      \<and> filter isGrowth (pendingEvents s') = filter isGrowth (pendingEvents s)
      \<and> filter isMilestone (pendingEvents s') = filter isMilestone (pendingEvents s))"

text \<open>What the progression (the growth loop and the milestone step) leaves as it is.\<close>

definition progressFrame :: "GameState \<Rightarrow> GameState \<Rightarrow> bool" where
  "progressFrame s s' =
     (difficulty s' = difficulty s \<and> arena s' = arena s \<and> mode s' = mode s
      \<and> entities s' = entities s \<and> apexThreat s' = apexThreat s
      \<and> score (run s') = score (run s) \<and> timeSeconds (run s') = timeSeconds (run s))"

text \<open>The measure that decreases along the growth loop when the extra-life step is positive.\<close>

definition growthMeasure :: "GameState \<Rightarrow> nat" where
  "growthMeasure s =
     nat \<lceil>MAX_SIZE_TIER - sizeTier (player s)\<rceil>
     + nat (\<lfloor>(score (run s) - nextExtraLifeScore (run s)) / extraLifeScoreStep (difficulty s)\<rfloor> + 1)"

text \<open>
  \<open>grown s s' n\<close>: from \<open>s\<close> to \<open>s'\<close> the growth loop has taken the growth branch
  \<open>n\<close> times, each time with the score at the threshold and the tier below 5, and has
  stopped with the score below the threshold or the tier at 5.
\<close>

definition grown :: "GameState \<Rightarrow> GameState \<Rightarrow> nat \<Rightarrow> bool" where
  "grown s s' n =
     (sizeTier (player s') = sizeTier (player s) + real n
      \<and> nextGrowthScore (run s') = nextGrowthScore (run s) + 1000 * real n
      \<and> filter isGrowth (pendingEvents s') = filter isGrowth (pendingEvents s) @ growthEvents (sizeTier (player s)) n
      \<and> pradius (player s') = (if n = 0 then pradius (player s) else playerRadiusForSizeTier (sizeTier (player s')))
      \<and> (\<forall>j<n. nextGrowthScore (run s) + 1000 * real j \<le> score (run s')
                 \<and> sizeTier (player s) + real j < MAX_SIZE_TIER)
      \<and> (score (run s') < nextGrowthScore (run s') \<or> MAX_SIZE_TIER \<le> sizeTier (player s')))"

text \<open>
  A spawn of kind \<open>k\<close> is due on a tick of \<open>dt\<close> seconds: the kind is unlocked, its
  rate is positive, its timer with \<open>dt\<close> added has reached \<open>1 / rate\<close>, and it is under
  its cap.
\<close>

definition spawnDue :: "GameState \<Rightarrow> real \<Rightarrow> EntityKind \<Rightarrow> bool" where
  "spawnDue s dt k =
     (isKindUnlocked s k \<and> 0 < spawnRateForKind s k
      \<and> 1 / spawnRateForKind s k \<le> spawnTimers s k + dt
      \<and> real (countByKind s k) < spawnCapForKind s k)"


definition tailHit :: "GameState \<Rightarrow> Entity \<Rightarrow> bool" where
  "tailHit state entity =
     (case (if kind entity = Apex then combat entity else None) of
        Some c \<Rightarrow> tailHitOpen state entity c \<and> hitCooldownReady state c
      | None \<Rightarrow> False)"


text \<open>
  The invariant behind the bounds of the threat intensity: a combat record has a
  positive maximal health and a health between 0 and it; the intensity is within
  [0, 1]; the profile's apex health is positive.
\<close>

definition apexSound :: "Entity \<Rightarrow> bool" where
  "apexSound e =
     (case combat e of
        None \<Rightarrow> True
      | Some c \<Rightarrow> 0 < maxHealth c \<and> 0 \<le> health c \<and> health c \<le> maxHealth c)"

definition threatInv :: "GameState \<Rightarrow> bool" where
  "threatInv s =
     (0 \<le> intensity (apexThreat s) \<and> intensity (apexThreat s) \<le> 1
      \<and> list_all apexSound (entities s) \<and> 0 < apexMaxHealth (difficulty s))"

text \<open>
  The states a host can reach with the exported operations, for a table of profiles
  \<open>D\<close>: an initial state, and from a reachable state a tick that returns, a new run, a
  change of mode and a change of difficulty.
\<close>

inductive reachable :: "(DifficultyKey \<Rightarrow> DifficultyProfile) \<Rightarrow> GameState \<Rightarrow> bool"
  for D :: "DifficultyKey \<Rightarrow> DifficultyProfile" where
  initial: "reachable D (fst (createInitialGameState D k g))"
| ticked: "reachable D s \<Longrightarrow> tickGame s i dtMs g = Some (s', g') \<Longrightarrow> reachable D s'"
| started: "reachable D s \<Longrightarrow> reachable D (fst (startNewRun D s g))"
| moded: "reachable D s \<Longrightarrow> reachable D (setMode s m)"
| switched: "reachable D s \<Longrightarrow> reachable D (fst (setDifficulty D s k g))"

fun isApexHit :: "GameEvent \<Rightarrow> bool" where
  "isApexHit (EvApexHit i d h m p v) = True"
| "isApexHit e = False"

text \<open>
  The threat intensity that the collisions of a playing tick leave, before
  \<open>updateApexThreatState\<close> recomputes it: that of the state after \<open>worldStep\<close>.
\<close>

definition afterCollisions :: "GameState \<Rightarrow> InputState \<Rightarrow> real \<Rightarrow> rng \<Rightarrow> real" where
  "afterCollisions s i dtMs g =
     intensity (apexThreat (fst (worldStep
       (s\<lparr>elapsedMs := elapsedMs s + dtMs, pendingEvents := [], mode := Playing\<rparr>) i dtMs g)))"



section \<open>Example inputs\<close>

text \<open>
  The table of profiles of config.ts is a parameter of the model; the profile below
  stands for one of its three presets in the examples.
\<close>

definition demoProfile :: DifficultyProfile where
  "demoProfile =
     \<lparr>key = Normal, label = ''Normal'', scoreMultiplier = 1, startingLives = 3,
      playerSpeed = 220, playerTurnLerp = 2 / 10, playerHitboxScale = 1, enemyHitboxScale = 1,
      preySpawnPerSecond = 12 / 10, predatorSpawnPerSecond = 1 / 2,
      apexSpawnPerSecond = 1 / 20, hazardSpawnPerSecond = 1 / 10,
      maxPrey = 12, maxPredators = 5, maxApex = 1, maxHazards = 3,
      predatorAggression = 1 / 2, apexAggression = 1 / 2, apexMaxHealth = 3,
      apexTailHitLeniency = 1, reactionSmoothing = 1 / 2,
      graceSecondsAfterRespawn = 2, extraLifeScoreStep = 5000\<rparr>"

definition demoTable :: "DifficultyKey \<Rightarrow> DifficultyProfile" where
  "demoTable k = demoProfile\<lparr>key := k\<rparr>"

definition halfDraws :: rng where
  "halfDraws n = 1 / 2"


definition origin :: Vec2 where
  "origin = \<lparr>xc = 0, yc = 0\<rparr>"

definition demoState :: GameState where
  "demoState =
     \<lparr>seed = 42, elapsedMs = 5000, mode = Playing, arena = ARENA, difficulty = demoProfile,
      player = \<lparr>ppos = \<lparr>xc = 2112 / 10, yc = 270\<rparr>, pvel = origin, pradius = 12,
                 sizeTier = 2, lives = 3, invulnerableUntil = 0\<rparr>,
      entities = [],
      run = \<lparr>score = 0, timeSeconds = 5, preyEaten = 0, predatorsAvoided = 0,
              nextGrowthScore = 1000, nextExtraLifeScore = 6000, milestone = 0\<rparr>,
      nextEntityId = 1,
      spawnTimers = (\<lambda>k. 0),
      apexThreat = \<lparr>activeCount = 0, intensity = 0, threatLastHitAt = - 999, lastKillAt = - 999\<rparr>,
      pendingEvents = []\<rparr>"

definition quietInput :: InputState where
  "quietInput = \<lparr>movement = origin, pausePressed = False\<rparr>"

definition pauseInput :: InputState where
  "pauseInput = \<lparr>movement = origin, pausePressed = True\<rparr>"

definition pausedState :: GameState where
  "pausedState = demoState\<lparr>mode := Paused\<rparr>"

definition demoApex :: "real \<Rightarrow> real \<Rightarrow> Entity" where
  "demoApex i h =
     \<lparr>eid = i, kind = Apex, sizeClass = Some S5, variant = Some 1,
      pos = \<lparr>xc = 600, yc = 300\<rparr>, vel = \<lparr>xc = 100, yc = 0\<rparr>, radius = 30,
      combat = Some \<lparr>maxHealth = 3, health = h, tailWindowBias = 6 / 10,
                      flashUntil = - 1, lastHitAt = - 999\<rparr>\<rparr>"

definition decayState :: GameState where
  "decayState = demoState\<lparr>apexThreat := (apexThreat demoState)\<lparr>intensity := 1 / 2\<rparr>\<rparr>"

definition twoApexState :: GameState where
  "twoApexState = demoState\<lparr>entities := [demoApex 1 1, demoApex 2 3],
                            apexThreat := (apexThreat demoState)\<lparr>intensity := 2 / 10\<rparr>\<rparr>"

definition tailApex :: Entity where
  "tailApex =
     \<lparr>eid = 7, kind = Apex, sizeClass = Some S5, variant = Some 1,
      pos = \<lparr>xc = 2412 / 10, yc = 270\<rparr>, vel = \<lparr>xc = 100, yc = 0\<rparr>, radius = 30,
      combat = Some \<lparr>maxHealth = 3, health = 1, tailWindowBias = 6 / 10,
                      flashUntil = - 1, lastHitAt = - 999\<rparr>\<rparr>"

definition tailCombat :: Combat where
  "tailCombat = \<lparr>maxHealth = 3, health = 1, tailWindowBias = 6 / 10,
                  flashUntil = - 1, lastHitAt = - 999\<rparr>"

definition killState :: GameState where
  "killState = demoState\<lparr>entities := [tailApex], nextEntityId := 8,
                          run := (run demoState)\<lparr>score := 900, timeSeconds := 30\<rparr>\<rparr>"

definition capState :: GameState where
  "capState = demoState\<lparr>entities := [demoApex 1 3], nextEntityId := 2,
                         run := (run demoState)\<lparr>timeSeconds := 30\<rparr>\<rparr>"

definition dueState :: GameState where
  "dueState = demoState\<lparr>spawnTimers := (spawnTimers demoState)(Prey := 83 / 100)\<rparr>"

text \<open>
  An apex in front of the player's reach: the player, at x = 211.2, overlaps it and is
  ahead of it (the apex faces +x), so the tail is not open.
\<close>

definition frontApex :: Entity where
  "frontApex =
     \<lparr>eid = 7, kind = Apex, sizeClass = Some S5, variant = Some 1,
      pos = \<lparr>xc = 1812 / 10, yc = 270\<rparr>, vel = \<lparr>xc = 100, yc = 0\<rparr>, radius = 30,
      combat = Some \<lparr>maxHealth = 3, health = 3, tailWindowBias = 6 / 10,
                      flashUntil = - 1, lastHitAt = - 999\<rparr>\<rparr>"

definition frontCombat :: Combat where
  "frontCombat = \<lparr>maxHealth = 3, health = 3, tailWindowBias = 6 / 10,
                   flashUntil = - 1, lastHitAt = - 999\<rparr>"

definition frontState :: GameState where
  "frontState = demoState\<lparr>entities := [frontApex], nextEntityId := 8,
                           run := (run demoState)\<lparr>timeSeconds := 30\<rparr>\<rparr>"

definition shieldedState :: GameState where
  "shieldedState = frontState\<lparr>player := (player frontState)\<lparr>invulnerableUntil := 40\<rparr>\<rparr>"

text \<open>
  A predator of size class 3 on top of a player of tier 2: a hostile contact.
\<close>

definition bitePredator :: Entity where
  "bitePredator =
     \<lparr>eid = 3, kind = Predator, sizeClass = Some S3, variant = Some 1,
      pos = \<lparr>xc = 2112 / 10, yc = 270\<rparr>, vel = origin, radius = 16, combat = None\<rparr>"

definition biteState :: GameState where
  "biteState = demoState\<lparr>entities := [bitePredator], nextEntityId := 4\<rparr>"



definition freshRun :: GameState where
  "freshRun = fst (startNewRun demoTable (fst (createInitialGameState demoTable Normal halfDraws)) halfDraws)"

text \<open>
  The kill of \<open>killState\<close> with the player at tier 4, 2900 points and the growth
  threshold at 3000: the 1500 points cross 3000 and 4000.
\<close>

definition lastTierState :: GameState where
  "lastTierState =
     killState\<lparr>player := (player killState)\<lparr>sizeTier := 4, pradius := 22\<rparr>,
               run := (run killState)\<lparr>score := 2900, nextGrowthScore := 3000\<rparr>\<rparr>"

text \<open>
  Two states with a prior intensity: the shielded front contact, where no tail hit
  occurs, and the kill of \<open>killState\<close>.
\<close>

definition calmState :: GameState where
  "calmState = shieldedState\<lparr>apexThreat := (apexThreat shieldedState)\<lparr>intensity := 1 / 2\<rparr>\<rparr>"

definition hotKillState :: GameState where
  "hotKillState = killState\<lparr>apexThreat := (apexThreat killState)\<lparr>intensity := 9 / 10\<rparr>\<rparr>"

section \<open>Apex threat intensity\<close>

lemma foldl_damage_sum:
  "foldl (\<lambda>sum e. case combat e of None \<Rightarrow> sum | Some c \<Rightarrow> sum + (1 - health c / maxHealth c)) a es
     = a + sum_list (map damageFraction es)"
  by (induction es arbitrary: a) (auto simp: damageFraction_def split: option.splits)

text \<open>
  The recomputation on any state: a fall by 0.02 with no apex, otherwise the larger of
  the decayed intensity and the mean damage fraction.
\<close>

lemma threat_recompute:
  "intensity (apexThreat (updateApexThreatState s)) =
     (if countByKind s Apex = 0 then max 0 (intensity (apexThreat s) - 2 / 100)
      else max (intensity (apexThreat s) * (985 / 1000))
               (sum_list (map damageFraction (filter (\<lambda>e. kind e = Apex) (entities s)))
                / real (countByKind s Apex)))"
  by (simp add: updateApexThreatState_def countByKind_def Let_def foldl_damage_sum)

lemma threat_recompute_mean:
  "intensity (apexThreat (updateApexThreatState twoApexState)) = 1 / 3"
  by (simp add: threat_recompute countByKind_def twoApexState_def demoState_def demoApex_def
      damageFraction_def)

section \<open>Modes other than playing\<close>

lemma hypot_axis [simp]: "hypot a 0 = \<bar>a\<bar>" "hypot 0 b = \<bar>b\<bar>"
  by (simp_all add: hypot_def)

text \<open>
  C5, as the code has it. A tick in mode title or gameOver, or in mode paused without
  a pause press, returns the previous state with only \<open>elapsedMs\<close> advanced and the
  pending events cleared: mode, player, entities, run, spawn timers and apex threat are
  the previous ones. A pause press in mode playing does the same and sets the mode to
  paused. A pause press in mode paused sets the mode to playing before the gate, so
  that very tick runs the whole simulation, as a tick of the playing state does.
\<close>

theorem tick_outside_play:
  "(mode s = Title \<or> mode s = GameOver \<or> (mode s = Paused \<and> \<not> pausePressed i)
      \<longrightarrow> tickGame s i dtMs g = Some (s\<lparr>elapsedMs := elapsedMs s + dtMs, pendingEvents := []\<rparr>, g))
   \<and> (mode s = Playing \<and> pausePressed i
      \<longrightarrow> tickGame s i dtMs g
          = Some (s\<lparr>elapsedMs := elapsedMs s + dtMs, pendingEvents := [], mode := Paused\<rparr>, g))
   \<and> (mode s = Paused \<and> pausePressed i
      \<longrightarrow> tickGame s i dtMs g = tickGame (s\<lparr>mode := Playing\<rparr>) (i\<lparr>pausePressed := False\<rparr>) dtMs g)"
proof (intro conjI impI)
  assume "mode s = Title \<or> mode s = GameOver \<or> (mode s = Paused \<and> \<not> pausePressed i)"
  then show "tickGame s i dtMs g = Some (s\<lparr>elapsedMs := elapsedMs s + dtMs, pendingEvents := []\<rparr>, g)"
    by (auto simp: tickGame_def Let_def)
next
  assume "mode s = Playing \<and> pausePressed i"
  then show "tickGame s i dtMs g
          = Some (s\<lparr>elapsedMs := elapsedMs s + dtMs, pendingEvents := [], mode := Paused\<rparr>, g)"
    by (simp add: tickGame_def Let_def)
next
  assume "mode s = Paused \<and> pausePressed i"
  moreover have "playTick st (i\<lparr>pausePressed := False\<rparr>) dtMs g = playTick st i dtMs g" for st
    by (simp add: playTick_def movePlayer_def)
  ultimately show "tickGame s i dtMs g = tickGame (s\<lparr>mode := Playing\<rparr>) (i\<lparr>pausePressed := False\<rparr>) dtMs g"
    by (cases s) (simp add: tickGame_def Let_def)
qed

theorem tick_outside_play_witness:
  "mode pausedState = Paused \<and> \<not> pausePressed quietInput
   \<and> tickGame pausedState quietInput 16 halfDraws
       = Some (pausedState\<lparr>elapsedMs := 5016, pendingEvents := []\<rparr>, halfDraws)
   \<and> mode demoState = Playing \<and> pausePressed pauseInput
   \<and> tickGame demoState pauseInput 16 halfDraws
       = Some (demoState\<lparr>elapsedMs := 5016, pendingEvents := [], mode := Paused\<rparr>, halfDraws)
   \<and> tickGame pausedState pauseInput 16 halfDraws
       = tickGame (pausedState\<lparr>mode := Playing\<rparr>) (pauseInput\<lparr>pausePressed := False\<rparr>) 16 halfDraws"
  using tick_outside_play [of pausedState quietInput 16 halfDraws]
    tick_outside_play [of demoState pauseInput 16 halfDraws]
    tick_outside_play [of pausedState pauseInput 16 halfDraws]
  by (simp add: pausedState_def quietInput_def pauseInput_def demoState_def)

text \<open>
  C5 as stated fails on the tick that leaves the pause: the state is paused, the input
  presses pause, and the run's clock advances by the 16 ms of the tick.
\<close>

theorem unpause_counterexample:
  "mode pausedState = Paused
   \<and> pausePressed pauseInput
   \<and> timeSeconds (run pausedState) = 5
   \<and> map_option (timeSeconds \<circ> run \<circ> fst) (tickGame pausedState pauseInput 16 halfDraws)
       = Some (5 + 16 / 1000)"
  apply (simp add: tickGame_def playTick_def pausedState_def pauseInput_def Let_def clamp_def)
  apply (simp add: demoState_def maybeSpawn_def spawnKind_def isKindUnlocked_def spawnRateForKind_def
      spawnCapForKind_def countByKind_def spawnRates_def demoProfile_def Let_def movePlayer_def
      updateGrowthAndLives_def growthLoop.simps milestoneStep_def milestoneForScore_def
      updateApexThreatState_def normalize_v_def len_def scale_def add_def lerp_def clamp_def
      ARENA_def origin_def)
  done

section \<open>What the steps of a tick leave unchanged\<close>


lemma spawnKind_frame: "spawnFrame (fst sg) (fst (spawnKind dt k sg))"
  by (cases sg) (simp add: spawnFrame_def spawnKind_def Let_def split: prod.splits)

lemma spawnFrame_trans: "spawnFrame a b \<Longrightarrow> spawnFrame b c \<Longrightarrow> spawnFrame a c"
  by (simp add: spawnFrame_def)

lemma maybeSpawn_frame: "spawnFrame s (fst (maybeSpawn s dt g))"
proof -
  have "spawnFrame (fst sg) (fst (foldl (\<lambda>sg k. spawnKind dt k sg) sg ks))" for sg ks
  proof (induction ks arbitrary: sg)
    case Nil
    show ?case by (simp add: spawnFrame_def)
  next
    case (Cons k ks)
    show ?case
      using spawnFrame_trans [OF spawnKind_frame [of sg dt k] Cons.IH [of "spawnKind dt k sg"]]
      by simp
  qed
  from this [of "(s, g)" "[Prey, Predator, Apex, Hazard]"] show ?thesis
    by (simp add: maybeSpawn_def)
qed

lemma stepFrame_refl: "stepFrame s s"
  by (simp add: stepFrame_def)

lemma stepFrame_trans: "stepFrame a b \<Longrightarrow> stepFrame b c \<Longrightarrow> stepFrame a c"
  by (simp add: stepFrame_def)

lemma reset_frame:
  "resetPlayerAfterHit s g = (s', g') \<Longrightarrow>
     run s' = run s \<and> difficulty s' = difficulty s \<and> pendingEvents s' = pendingEvents s
     \<and> apexThreat s' = apexThreat s \<and> mode s' = mode s \<and> arena s' = arena s
     \<and> lives (player s') = lives (player s) \<and> sizeTier (player s') = sizeTier (player s)
     \<and> pradius (player s') = pradius (player s)"
  by (auto simp: resetPlayerAfterHit_def Let_def split: prod.splits)

lemma applyTailHit_pending: "pendingEvents (cstate (applyTailHit s e c g)) = pendingEvents s"
  by (simp add: applyTailHit_def Let_def)

lemma eatOrHostile_pending: "pendingEvents (cstate (eatOrHostile s e g)) = pendingEvents s"
  by (auto simp: eatOrHostile_def Let_def split: prod.splits dest!: reset_frame)

lemma handle_pending: "pendingEvents (cstate (handlePlayerCollision s e g)) = pendingEvents s"
  by (simp add: handlePlayerCollision_def Let_def applyTailHit_pending eatOrHostile_pending
      split: option.splits)

lemma applyTailHit_events_plain:
  "filter isGrowth (events (applyTailHit s e c g)) = []"
  "filter isMilestone (events (applyTailHit s e c g)) = []"
  by (simp_all add: applyTailHit_def Let_def)

lemma eatOrHostile_events_plain:
  "filter isGrowth (events (eatOrHostile s e g)) = []"
  "filter isMilestone (events (eatOrHostile s e g)) = []"
  by (simp_all add: eatOrHostile_def Let_def split: prod.splits)

lemma handle_events_plain:
  "filter isGrowth (events (handlePlayerCollision s e g)) = []"
  "filter isMilestone (events (handlePlayerCollision s e g)) = []"
  by (simp_all add: handlePlayerCollision_def Let_def applyTailHit_events_plain
      eatOrHostile_events_plain split: option.splits)

lemma applyTailHit_stepFrame: "stepFrame s (cstate (applyTailHit s e c g))"
  by (simp add: stepFrame_def applyTailHit_def Let_def)

lemma eatOrHostile_stepFrame: "stepFrame s (cstate (eatOrHostile s e g))"
  by (auto simp: stepFrame_def eatOrHostile_def Let_def split: prod.splits dest!: reset_frame)

lemma handle_stepFrame: "stepFrame s (cstate (handlePlayerCollision s e g))"
  by (simp add: handlePlayerCollision_def Let_def applyTailHit_stepFrame eatOrHostile_stepFrame
      stepFrame_refl split: option.splits)

lemma collideAll_stepFrame:
  "collideAll es (s, surv, g) = (s', surv', g') \<Longrightarrow> stepFrame s s'"
proof (induction es arbitrary: s surv g)
  case Nil
  then show ?case by (simp add: stepFrame_refl)
next
  case (Cons e es)
  let ?r = "handlePlayerCollision s e g"
  let ?s1 = "(cstate ?r)\<lparr>pendingEvents := pendingEvents (cstate ?r) @ events ?r\<rparr>"
  have a: "stepFrame s ?s1"
    using handle_stepFrame [of s e g] by (simp add: stepFrame_def handle_events_plain)
  from Cons.prems obtain sv where "collideAll es (?s1, sv, crng ?r) = (s', surv', g')"
    by (simp add: Let_def split: if_splits)
  from Cons.IH [OF this] a show ?case by (rule stepFrame_trans [rotated])
qed

lemma worldStep_stepFrame: "stepFrame s (fst (worldStep s i dtMs g))"
proof -
  let ?dt = "clamp (dtMs / 1000) 0 (5 / 100)"
  let ?s2 = "s\<lparr>run := (run s)\<lparr>timeSeconds := timeSeconds (run s) + ?dt\<rparr>\<rparr>"
  obtain s3 g1 where sp: "maybeSpawn ?s2 ?dt g = (s3, g1)" by (cases "maybeSpawn ?s2 ?dt g")
  let ?s4 = "movePlayer s3 i ?dt"
  obtain ents g2 where ai: "updateEntitiesAI ?s4 ?dt (entities ?s4) g1 = (ents, g2)"
    by (cases "updateEntitiesAI ?s4 ?dt (entities ?s4) g1")
  let ?s5 = "?s4\<lparr>entities := ents\<rparr>"
  obtain s6 surv g3 where co: "collideAll ents (?s5, [], g2) = (s6, surv, g3)"
    by (cases "collideAll ents (?s5, [], g2)")
  have "spawnFrame ?s2 s3" using maybeSpawn_frame [of ?s2 ?dt g] sp by simp
  then have "stepFrame s ?s5"
    by (simp add: spawnFrame_def stepFrame_def movePlayer_def Let_def)
  with collideAll_stepFrame [OF co] have "stepFrame s s6" by (rule stepFrame_trans [rotated])
  then have "stepFrame s (s6\<lparr>entities := surv\<rparr>)" by (simp add: stepFrame_def)
  moreover have "fst (worldStep s i dtMs g) = s6\<lparr>entities := surv\<rparr>"
    using sp ai co by (simp add: worldStep_def Let_def)
  ultimately show ?thesis by simp
qed

lemma playTick_worldStep:
  "playTick s i dtMs g =
     map_option (\<lambda>s8. (updateApexThreatState s8, snd (worldStep s i dtMs g)))
       (updateGrowthAndLives (fst (worldStep s i dtMs g)))"
  by (simp add: playTick_def worldStep_def Let_def split_beta split: option.splits)

section \<open>The growth loop\<close>

lemma growStep_fields:
  "difficulty (growStep s) = difficulty s"
  "score (run (growStep s)) = score (run s)"
  "sizeTier (player (growStep s)) = sizeTier (player s) + 1"
  "nextGrowthScore (run (growStep s)) = nextGrowthScore (run s) + 1000"
  "nextExtraLifeScore (run (growStep s)) \<ge> nextExtraLifeScore (run s)"
  "pendingEvents (growStep s) = pendingEvents s @ [EvGrowth (sizeTier (player s) + 1)]"
  "pradius (player (growStep s)) = playerRadiusForSizeTier (sizeTier (player s) + 1)"
  "milestone (run (growStep s)) = milestone (run s)"
  "progressFrame s (growStep s)"
  by (simp_all add: growStep_def progressFrame_def Let_def)

lemma extraLifeStep_fields:
  "difficulty (extraLifeStep s) = difficulty s"
  "score (run (extraLifeStep s)) = score (run s)"
  "sizeTier (player (extraLifeStep s)) = sizeTier (player s)"
  "pradius (player (extraLifeStep s)) = pradius (player s)"
  "nextGrowthScore (run (extraLifeStep s)) = nextGrowthScore (run s)"
  "nextExtraLifeScore (run (extraLifeStep s))
     = nextExtraLifeScore (run s) + extraLifeScoreStep (difficulty s)"
  "pendingEvents (extraLifeStep s) = pendingEvents s @ [EvExtraLife (lives (player s) + 1)]"
  "milestone (run (extraLifeStep s)) = milestone (run s)"
  "progressFrame s (extraLifeStep s)"
  by (simp_all add: extraLifeStep_def progressFrame_def Let_def)

lemma growStep_measure:
  assumes "sizeTier (player s) < MAX_SIZE_TIER" "extraLifeScoreStep (difficulty s) > 0"
  shows "growthMeasure (growStep s) < growthMeasure s"
proof -
  let ?d = "extraLifeScoreStep (difficulty s)"
  have a: "nat \<lceil>MAX_SIZE_TIER - (sizeTier (player s) + 1)\<rceil> < nat \<lceil>MAX_SIZE_TIER - sizeTier (player s)\<rceil>"
    using assms(1) by linarith
  have "(score (run s) - nextExtraLifeScore (run (growStep s))) / ?d
        \<le> (score (run s) - nextExtraLifeScore (run s)) / ?d"
    using assms(2) growStep_fields(5) [of s] by (simp add: divide_right_mono)
  then have b: "\<lfloor>(score (run s) - nextExtraLifeScore (run (growStep s))) / ?d\<rfloor>
        \<le> \<lfloor>(score (run s) - nextExtraLifeScore (run s)) / ?d\<rfloor>"
    by (rule floor_mono)
  have c: "nat (\<lfloor>(score (run s) - nextExtraLifeScore (run (growStep s))) / ?d\<rfloor> + 1)
        \<le> nat (\<lfloor>(score (run s) - nextExtraLifeScore (run s)) / ?d\<rfloor> + 1)"
    using b by linarith
  show ?thesis
    unfolding growthMeasure_def growStep_fields using a c by linarith
qed

lemma extraLifeStep_measure:
  assumes "score (run s) \<ge> nextExtraLifeScore (run s)" "extraLifeScoreStep (difficulty s) > 0"
  shows "growthMeasure (extraLifeStep s) < growthMeasure s"
proof -
  let ?d = "extraLifeScoreStep (difficulty s)"
  let ?x = "(score (run s) - nextExtraLifeScore (run s)) / ?d"
  have x0: "0 \<le> ?x" using assms by simp
  have "(score (run s) - (nextExtraLifeScore (run s) + ?d)) / ?d = ?x - 1"
    using assms(2) by (simp add: field_simps)
  then have "\<lfloor>(score (run s) - (nextExtraLifeScore (run s) + ?d)) / ?d\<rfloor> = \<lfloor>?x\<rfloor> - 1"
    by simp
  moreover have "0 \<le> \<lfloor>?x\<rfloor>" using x0 by simp
  ultimately have "nat (\<lfloor>(score (run s) - (nextExtraLifeScore (run s) + ?d)) / ?d\<rfloor> + 1)
      < nat (\<lfloor>?x\<rfloor> + 1)"
    by linarith
  then show ?thesis
    unfolding growthMeasure_def extraLifeStep_fields by linarith
qed

text \<open>With a positive extra-life step the loop returns.\<close>

lemma growthLoop_terminates:
  assumes "extraLifeScoreStep (difficulty s) > 0"
  shows "\<exists>s'. growthLoop s = Some s'"
  using assms
proof (induction "growthMeasure s" arbitrary: s rule: less_induct)
  case less
  show ?case
  proof (cases "score (run s) \<ge> nextGrowthScore (run s)")
    case False
    then show ?thesis by (subst growthLoop.simps) simp
  next
    case True
    show ?thesis
    proof (cases "sizeTier (player s) < MAX_SIZE_TIER")
      case grow: True
      have "\<exists>s'. growthLoop (growStep s) = Some s'"
        using less.hyps [OF growStep_measure [OF grow less.prems]] less.prems
        by (simp add: growStep_fields)
      then show ?thesis using True grow by (subst growthLoop.simps) simp
    next
      case top: False
      show ?thesis
      proof (cases "score (run s) \<ge> nextExtraLifeScore (run s)")
        case extra: True
        have "\<exists>s'. growthLoop (extraLifeStep s) = Some s'"
          using less.hyps [OF extraLifeStep_measure [OF extra less.prems]] less.prems
          by (simp add: extraLifeStep_fields)
        then show ?thesis using True top extra by (subst growthLoop.simps) simp
      next
        case False
        then show ?thesis using True top by (subst growthLoop.simps) simp
      qed
    qed
  qed
qed

lemma progressFrame_trans: "progressFrame a b \<Longrightarrow> progressFrame b c \<Longrightarrow> progressFrame a c"
  by (simp add: progressFrame_def)

lemma growthLoop_frame:
  assumes "growthLoop s = Some s'"
  shows "progressFrame s s' \<and> milestone (run s') = milestone (run s)
         \<and> filter isMilestone (pendingEvents s') = filter isMilestone (pendingEvents s)"
    (is "?P s s'")
  using assms
proof (rule growthLoop.raw_induct [where P = ?P, rotated])
  fix loop :: "GameState \<Rightarrow> GameState option" and st st'
  assume IH: "\<And>x y. loop x = Some y \<Longrightarrow> ?P x y"
  assume eq: "(if nextGrowthScore (run st) \<le> score (run st)
      then if sizeTier (player st) < MAX_SIZE_TIER then loop (growStep st)
           else if nextExtraLifeScore (run st) \<le> score (run st)
                then loop (extraLifeStep st) else Some st
      else Some st) = Some st'"
  show "?P st st'"
  proof (cases "nextGrowthScore (run st) \<le> score (run st)")
    case False
    with eq show ?thesis by (simp add: progressFrame_def)
  next
    case True
    show ?thesis
    proof (cases "sizeTier (player st) < MAX_SIZE_TIER")
      case grow: True
      with True eq have "loop (growStep st) = Some st'" by simp
      from IH [OF this] progressFrame_trans [OF growStep_fields(9) [of st], of st']
      show ?thesis by (simp add: growStep_fields)
    next
      case top: False
      show ?thesis
      proof (cases "nextExtraLifeScore (run st) \<le> score (run st)")
        case extra: True
        with True top eq have "loop (extraLifeStep st) = Some st'" by simp
        from IH [OF this] progressFrame_trans [OF extraLifeStep_fields(9) [of st], of st']
        show ?thesis by (simp add: extraLifeStep_fields)
      next
        case False
        with True top eq show ?thesis by (simp add: progressFrame_def)
      qed
    qed
  qed
qed

lemma growthEvents_Suc: "growthEvents t (Suc n) = EvGrowth (t + 1) # growthEvents (t + 1) n"
proof -
  have "[0..<Suc n] = 0 # map Suc [0..<n]"
    by (simp add: map_Suc_upt upt_conv_Cons del: upt_Suc)
  then show ?thesis
    by (simp add: growthEvents_def add.assoc add.commute del: upt_Suc)
qed

lemma grown_zero:
  "score (run s) < nextGrowthScore (run s) \<or> MAX_SIZE_TIER \<le> sizeTier (player s) \<Longrightarrow> grown s s 0"
  by (simp add: grown_def growthEvents_def)

lemma grown_growStep:
  assumes "grown (growStep s) s' n" "nextGrowthScore (run s) \<le> score (run s')"
    "sizeTier (player s) < MAX_SIZE_TIER"
  shows "grown s s' (Suc n)"
proof -
  have tier: "sizeTier (player s') = sizeTier (player s) + real (Suc n)"
    using assms(1) by (simp add: grown_def growStep_fields)
  have thr: "nextGrowthScore (run s') = nextGrowthScore (run s) + 1000 * real (Suc n)"
    using assms(1) by (simp add: grown_def growStep_fields)
  have evs: "filter isGrowth (pendingEvents s')
      = filter isGrowth (pendingEvents s) @ growthEvents (sizeTier (player s)) (Suc n)"
    using assms(1) by (simp add: grown_def growStep_fields growthEvents_Suc)
  have rad: "pradius (player s') = playerRadiusForSizeTier (sizeTier (player s'))"
    using assms(1) by (cases "n = 0") (simp_all add: grown_def growStep_fields)
  have stop: "score (run s') < nextGrowthScore (run s') \<or> MAX_SIZE_TIER \<le> sizeTier (player s')"
    using assms(1) unfolding grown_def by blast
  have all: "\<forall>j<Suc n. nextGrowthScore (run s) + 1000 * real j \<le> score (run s')
             \<and> sizeTier (player s) + real j < MAX_SIZE_TIER"
  proof (intro allI impI)
    fix j assume lt: "j < Suc n"
    show "nextGrowthScore (run s) + 1000 * real j \<le> score (run s')
             \<and> sizeTier (player s) + real j < MAX_SIZE_TIER"
    proof (cases j)
      case 0
      with assms(2,3) show ?thesis by simp
    next
      case (Suc k)
      with lt have "k < n" by simp
      with assms(1) have "nextGrowthScore (run (growStep s)) + 1000 * real k \<le> score (run s')
          \<and> sizeTier (player (growStep s)) + real k < MAX_SIZE_TIER"
        by (simp add: grown_def)
      with Suc show ?thesis by (simp add: growStep_fields algebra_simps)
    qed
  qed
  show ?thesis
    unfolding grown_def using tier thr evs rad stop all by simp
qed

lemma grown_extraLifeStep:
  assumes "grown (extraLifeStep s) s' n"
  shows "grown s s' n"
proof -
  have f: "filter isGrowth (pendingEvents (extraLifeStep s)) = filter isGrowth (pendingEvents s)"
    by (simp add: extraLifeStep_fields)
  show ?thesis
    using assms unfolding grown_def f extraLifeStep_fields(2-5) by blast
qed

lemma growthLoop_grown:
  assumes "growthLoop s = Some s'"
  shows "score (run s') = score (run s) \<and> (\<exists>n. grown s s' n)" (is "?P s s'")
  using assms
proof (rule growthLoop.raw_induct [where P = ?P, rotated])
  fix loop :: "GameState \<Rightarrow> GameState option" and st st'
  assume IH: "\<And>x y. loop x = Some y \<Longrightarrow> ?P x y"
  assume eq: "(if nextGrowthScore (run st) \<le> score (run st)
      then if sizeTier (player st) < MAX_SIZE_TIER then loop (growStep st)
           else if nextExtraLifeScore (run st) \<le> score (run st)
                then loop (extraLifeStep st) else Some st
      else Some st) = Some st'"
  show "?P st st'"
  proof (cases "nextGrowthScore (run st) \<le> score (run st)")
    case False
    with eq have "st' = st" by simp
    with False grown_zero [of st] show ?thesis by auto
  next
    case True
    show ?thesis
    proof (cases "sizeTier (player st) < MAX_SIZE_TIER")
      case grow: True
      with True eq have "loop (growStep st) = Some st'" by simp
      from IH [OF this] obtain n where
        sc: "score (run st') = score (run st)" and g: "grown (growStep st) st' n"
        by (auto simp: growStep_fields)
      from True sc have "nextGrowthScore (run st) \<le> score (run st')" by simp
      from grown_growStep [OF g this grow] sc show ?thesis by auto
    next
      case top: False
      show ?thesis
      proof (cases "nextExtraLifeScore (run st) \<le> score (run st)")
        case extra: True
        with True top eq have "loop (extraLifeStep st) = Some st'" by simp
        from IH [OF this] obtain n where
          sc: "score (run st') = score (run st)" and g: "grown (extraLifeStep st) st' n"
          by (auto simp: extraLifeStep_fields)
        from grown_extraLifeStep [OF g] sc show ?thesis by auto
      next
        case False
        with True top eq have "st' = st" by simp
        with top grown_zero [of st] show ?thesis by auto
      qed
    qed
  qed
qed

section \<open>A playing tick, taken apart\<close>

lemma tick_plays:
  assumes "playsThisTick s i"
  shows "tickGame s i dtMs g
     = playTick (s\<lparr>elapsedMs := elapsedMs s + dtMs, pendingEvents := [], mode := Playing\<rparr>) i dtMs g"
  using assms by (cases s) (auto simp: playsThisTick_def tickGame_def Let_def)


lemma milestoneStep_fields:
  "pendingEvents (milestoneStep s) = pendingEvents s
     @ (if milestone (run s) < milestoneForScore (score (run s))
        then [EvMilestone (milestoneForScore (score (run s)))] else [])"
  "score (run (milestoneStep s)) = score (run s)"
  "player (milestoneStep s) = player s"
  "nextGrowthScore (run (milestoneStep s)) = nextGrowthScore (run s)"
  "progressFrame s (milestoneStep s)"
  by (simp_all add: milestoneStep_def progressFrame_def Let_def)

lemma threat_fields:
  "pendingEvents (updateApexThreatState s) = pendingEvents s"
  "run (updateApexThreatState s) = run s"
  "player (updateApexThreatState s) = player s"
  "entities (updateApexThreatState s) = entities s"
  "difficulty (updateApexThreatState s) = difficulty s"
  "mode (updateApexThreatState s) = mode s"
  by (simp_all add: updateApexThreatState_def Let_def)

text \<open>A playing tick, taken apart: the world step, the growth loop, the milestone, the threat.\<close>

lemma playTick_parts:
  assumes "playTick s1 i dtMs g = Some (s', g')"
  obtains s7 sg where "s7 = fst (worldStep s1 i dtMs g)" "g' = snd (worldStep s1 i dtMs g)"
    "growthLoop s7 = Some sg" "s' = updateApexThreatState (milestoneStep sg)"
  using assms
  by (auto simp: playTick_worldStep updateGrowthAndLives_def split: option.splits)

lemma playTick_returns:
  assumes "0 < extraLifeScoreStep (difficulty s1)"
  shows "\<exists>s' g'. playTick s1 i dtMs g = Some (s', g')"
proof -
  let ?s7 = "fst (worldStep s1 i dtMs g)"
  have "difficulty ?s7 = difficulty s1"
    using worldStep_stepFrame [of s1 i dtMs g] by (simp add: stepFrame_def)
  with assms growthLoop_terminates [of ?s7] obtain sg where "growthLoop ?s7 = Some sg" by auto
  then show ?thesis by (simp add: playTick_worldStep updateGrowthAndLives_def)
qed

lemma grown_tick:
  assumes gr: "grown s7 sg n" and fr: "stepFrame (s\<lparr>elapsedMs := e, pendingEvents := [], mode := m\<rparr>) s7"
    and s': "s' = updateApexThreatState (milestoneStep sg)"
  shows "grown (s\<lparr>pendingEvents := []\<rparr>) s' n"
proof -
  have f1: "sizeTier (player s7) = sizeTier (player s)" "pradius (player s7) = pradius (player s)"
    "nextGrowthScore (run s7) = nextGrowthScore (run s)" "filter isGrowth (pendingEvents s7) = []"
    using fr by (simp_all add: stepFrame_def)
  have f2: "player s' = player sg" "nextGrowthScore (run s') = nextGrowthScore (run sg)"
    "score (run s') = score (run sg)" "filter isGrowth (pendingEvents s') = filter isGrowth (pendingEvents sg)"
    by (simp_all add: s' threat_fields milestoneStep_fields)
  have f3: "player (s\<lparr>pendingEvents := []\<rparr>) = player s" "run (s\<lparr>pendingEvents := []\<rparr>) = run s"
    "filter isGrowth (pendingEvents (s\<lparr>pendingEvents := []\<rparr>)) = []"
    by simp_all
  show ?thesis
    unfolding grown_def f2 f3 append_Nil
    by (rule gr [unfolded grown_def f1 append_Nil])
qed


lemma grown_two:
  assumes g1: "grown s s' n"
    and h: "nextGrowthScore (run s) + 1000 \<le> score (run s')" "sizeTier (player s) + 1 < MAX_SIZE_TIER"
  shows "\<exists>rest. growthEvents (sizeTier (player s)) n
      = EvGrowth (sizeTier (player s) + 1) # EvGrowth (sizeTier (player s) + 2) # rest"
proof -
  have stop: "score (run s') < nextGrowthScore (run s') \<or> MAX_SIZE_TIER \<le> sizeTier (player s')"
    using g1 unfolding grown_def by blast
  have tier: "sizeTier (player s') = sizeTier (player s) + real n"
    using g1 unfolding grown_def by blast
  have thr: "nextGrowthScore (run s') = nextGrowthScore (run s) + 1000 * real n"
    using g1 unfolding grown_def by blast
  have "2 \<le> n"
  proof (rule ccontr)
    assume "\<not> 2 \<le> n"
    then consider "n = 0" | "n = 1" by linarith
    then show False
    proof cases
      case 1
      with stop tier thr h show False by simp
    next
      case 2
      with stop tier thr h show False by simp
    qed
  qed
  then have n: "n = Suc (Suc (n - 2))" by simp
  have "sizeTier (player s) + 1 + 1 = sizeTier (player s) + 2" by simp
  then show ?thesis
    by (subst n) (simp only: growthEvents_Suc, blast)
qed



lemma grown_one:
  assumes g1: "grown s s' n"
    and h: "nextGrowthScore (run s) \<le> score (run s')" "sizeTier (player s) < MAX_SIZE_TIER"
      "MAX_SIZE_TIER \<le> sizeTier (player s) + 1"
  shows "growthEvents (sizeTier (player s)) n = [EvGrowth (sizeTier (player s) + 1)]"
proof -
  have stop: "score (run s') < nextGrowthScore (run s') \<or> MAX_SIZE_TIER \<le> sizeTier (player s')"
    using g1 unfolding grown_def by blast
  have tier: "sizeTier (player s') = sizeTier (player s) + real n"
    using g1 unfolding grown_def by blast
  have thr: "nextGrowthScore (run s') = nextGrowthScore (run s) + 1000 * real n"
    using g1 unfolding grown_def by blast
  have all: "\<forall>j<n. nextGrowthScore (run s) + 1000 * real j \<le> score (run s')
                 \<and> sizeTier (player s) + real j < MAX_SIZE_TIER"
    using g1 unfolding grown_def by blast
  have "n \<noteq> 0" using stop tier thr h by auto
  moreover have "n < 2"
  proof (rule ccontr)
    assume "\<not> n < 2"
    then have "1 < n" by simp
    with all have "sizeTier (player s) + real (1::nat) < MAX_SIZE_TIER" by blast
    with h(3) show False by simp
  qed
  ultimately have n: "n = Suc 0" by simp
  show ?thesis
    by (simp add: n growthEvents_Suc) (simp add: growthEvents_def)
qed

text \<open>
  A tick evaluated: the player, of tier 2 with 900 points, is behind an apex of health 1
  and within its tail band. The tail hit kills the apex, the 1500 points cross the
  thresholds 1000 and 2000, and the player grows twice.
\<close>

lemma kill_tick:
  "map_option (\<lambda>(s', g'). (pendingEvents s', entities s', score (run s'), sizeTier (player s'),
                              intensity (apexThreat s')))
      (tickGame killState quietInput 16 halfDraws)
   = Some ([EvApexHit 7 1 0 3 500 \<lparr>xc = 2426694784 / 10000000, yc = 270\<rparr>, EvScore 500,
            EvApexIntensity 1, EvScore 1000,
            EvApexKilled 7 1000 \<lparr>xc = 2426694784 / 10000000, yc = 270\<rparr>,
            EvGrowth 3, EvGrowth 4, EvMilestone 2], [], 2400, 4, 0)"
  apply (simp add: tickGame_def playTick_def killState_def quietInput_def Let_def clamp_def)
  apply (simp add: demoState_def tailApex_def maybeSpawn_def spawnKind_def isKindUnlocked_def spawnRateForKind_def
      spawnCapForKind_def countByKind_def spawnRates_def demoProfile_def Let_def movePlayer_def
      updateEntityAI_def doesNpcAttackPlayer_def chaseSpeed_def wrap_def sub_def
      handlePlayerCollision_def overlapsFishFootprint_def fishExtents_def tailHitOpen_def hitCooldownReady_def
      APEX_HIT_COOLDOWN_SECONDS_def applyTailHit_def apexTailDamageForPlayer_def pointsForApexTailHit_def
      updateGrowthAndLives_def growthLoop.simps growStep_def extraLifeStep_def MAX_SIZE_TIER_def
      playerRadiusForSizeTier_def milestoneStep_def milestoneForScore_def
      updateApexThreatState_def normalize_v_def len_def scale_def add_def lerp_def clamp_def
      ARENA_def origin_def)
  done

lemma kill_tick_returns:
  obtains s' g' where "tickGame killState quietInput 16 halfDraws = Some (s', g')"
    "pendingEvents s' = [EvApexHit 7 1 0 3 500 \<lparr>xc = 2426694784 / 10000000, yc = 270\<rparr>, EvScore 500,
            EvApexIntensity 1, EvScore 1000,
            EvApexKilled 7 1000 \<lparr>xc = 2426694784 / 10000000, yc = 270\<rparr>,
            EvGrowth 3, EvGrowth 4, EvMilestone 2]"
    "entities s' = []" "score (run s') = 2400" "sizeTier (player s') = 4"
    "intensity (apexThreat s') = 0"
  using kill_tick by auto

text \<open>The same tick at tier 4, with the score at 2900 and the threshold at 3000.\<close>

lemma last_tier_tick:
  "map_option (\<lambda>(s', g'). (filter isGrowth (pendingEvents s'), score (run s'), sizeTier (player s'),
                             nextGrowthScore (run s')))
      (tickGame lastTierState quietInput 16 halfDraws)
   = Some ([EvGrowth 5], 4400, 5, 4000)"
  apply (simp add: tickGame_def playTick_def lastTierState_def killState_def quietInput_def Let_def clamp_def)
  apply (simp add: demoState_def tailApex_def maybeSpawn_def spawnKind_def isKindUnlocked_def spawnRateForKind_def
      spawnCapForKind_def countByKind_def spawnRates_def demoProfile_def Let_def movePlayer_def
      normalize_v_def len_def scale_def add_def lerp_def clamp_def ARENA_def origin_def)
  apply (simp add: updateEntityAI_def doesNpcAttackPlayer_def chaseSpeed_def wrap_def sub_def
      normalize_v_def len_def scale_def add_def lerp_def ARENA_def Let_def)
  apply (simp add: handlePlayerCollision_def overlapsFishFootprint_def fishExtents_def tailHitOpen_def
      hitCooldownReady_def APEX_HIT_COOLDOWN_SECONDS_def applyTailHit_def apexTailDamageForPlayer_def
      pointsForApexTailHit_def clamp_def Let_def)
  apply (simp add: updateGrowthAndLives_def growthLoop.simps growStep_def extraLifeStep_def MAX_SIZE_TIER_def
      playerRadiusForSizeTier_def milestoneStep_def milestoneForScore_def
      updateApexThreatState_def Let_def)
  done

section \<open>Growth\<close>

text \<open>
  C7, as the code has it. On a playing tick \<open>tickGame\<close> returns when the extra-life
  step is positive, and whenever it returns, for some \<open>n\<close> the tier has risen by
  \<open>n\<close>, the growth threshold by \<open>1000 n\<close>, the tick's growth events are those of
  the tiers \<open>tier + 1, ..., tier + n\<close> in this order, and the radius is the lookup of
  the new tier when \<open>n > 0\<close>; each of the \<open>n\<close> steps was taken with the score at its
  threshold and the tier below 5, and the loop stopped with the score below the next
  threshold or the tier at 5. When the score of the tick has crossed two thresholds
  and the tier is below 5 at both, the growth events begin with those of \<open>tier + 1\<close>
  and \<open>tier + 2\<close>. When the tier is one step below 5, the tick has one growth event,
  that of the last tier, however many thresholds the score has crossed.
\<close>

theorem tick_growth:
  assumes "playsThisTick s i"
  shows "(0 < extraLifeScoreStep (difficulty s) \<longrightarrow> (\<exists>s' g'. tickGame s i dtMs g = Some (s', g')))
   \<and> (\<forall>s' g'. tickGame s i dtMs g = Some (s', g') \<longrightarrow>
        (\<exists>n. sizeTier (player s') = sizeTier (player s) + real n
           \<and> nextGrowthScore (run s') = nextGrowthScore (run s) + 1000 * real n
           \<and> filter isGrowth (pendingEvents s') = growthEvents (sizeTier (player s)) n
           \<and> pradius (player s')
               = (if n = 0 then pradius (player s) else playerRadiusForSizeTier (sizeTier (player s')))
           \<and> (\<forall>j<n. nextGrowthScore (run s) + 1000 * real j \<le> score (run s')
                      \<and> sizeTier (player s) + real j < MAX_SIZE_TIER)
           \<and> (score (run s') < nextGrowthScore (run s') \<or> MAX_SIZE_TIER \<le> sizeTier (player s'))
           \<and> (nextGrowthScore (run s) + 1000 \<le> score (run s')
                \<and> sizeTier (player s) + 1 < MAX_SIZE_TIER
              \<longrightarrow> (\<exists>rest. filter isGrowth (pendingEvents s')
                    = EvGrowth (sizeTier (player s) + 1) # EvGrowth (sizeTier (player s) + 2) # rest))
           \<and> (nextGrowthScore (run s) \<le> score (run s')
                \<and> sizeTier (player s) < MAX_SIZE_TIER \<and> MAX_SIZE_TIER \<le> sizeTier (player s) + 1
              \<longrightarrow> filter isGrowth (pendingEvents s') = [EvGrowth (sizeTier (player s) + 1)])))"
proof (intro conjI impI allI)
  let ?s1 = "s\<lparr>elapsedMs := elapsedMs s + dtMs, pendingEvents := [], mode := Playing\<rparr>"
  assume "0 < extraLifeScoreStep (difficulty s)"
  with playTick_returns [of ?s1 i dtMs g] tick_plays [OF assms, of dtMs g]
  show "\<exists>s' g'. tickGame s i dtMs g = Some (s', g')" by simp
next
  let ?s1 = "s\<lparr>elapsedMs := elapsedMs s + dtMs, pendingEvents := [], mode := Playing\<rparr>"
  fix s' g'
  assume "tickGame s i dtMs g = Some (s', g')"
  with tick_plays [OF assms, of dtMs g] have "playTick ?s1 i dtMs g = Some (s', g')" by simp
  then obtain s7 sg where s7: "s7 = fst (worldStep ?s1 i dtMs g)"
    and loop: "growthLoop s7 = Some sg" and s': "s' = updateApexThreatState (milestoneStep sg)"
    by (rule playTick_parts)
  from growthLoop_grown [OF loop] obtain n where gr: "grown s7 sg n" by auto
  have fr: "stepFrame ?s1 s7" using worldStep_stepFrame [of ?s1 i dtMs g] s7 by simp
  have g1: "grown (s\<lparr>pendingEvents := []\<rparr>) s' n"
    using gr fr s' by (rule grown_tick)
  have f3: "player (s\<lparr>pendingEvents := []\<rparr>) = player s" "run (s\<lparr>pendingEvents := []\<rparr>) = run s"
    "filter isGrowth (pendingEvents (s\<lparr>pendingEvents := []\<rparr>)) = []"
    by simp_all
  note g2 = g1 [unfolded grown_def f3 append_Nil]
  have two: "\<exists>rest. filter isGrowth (pendingEvents s')
      = EvGrowth (sizeTier (player s) + 1) # EvGrowth (sizeTier (player s) + 2) # rest"
    if "nextGrowthScore (run s) + 1000 \<le> score (run s')" "sizeTier (player s) + 1 < MAX_SIZE_TIER"
    using grown_two [OF g1] that g2 by (simp only: f3)
  have one: "filter isGrowth (pendingEvents s') = [EvGrowth (sizeTier (player s) + 1)]"
    if "nextGrowthScore (run s) \<le> score (run s')" "sizeTier (player s) < MAX_SIZE_TIER"
      "MAX_SIZE_TIER \<le> sizeTier (player s) + 1"
    using grown_one [OF g1] that g2 by (simp only: f3)
  show "\<exists>n. sizeTier (player s') = sizeTier (player s) + real n
           \<and> nextGrowthScore (run s') = nextGrowthScore (run s) + 1000 * real n
           \<and> filter isGrowth (pendingEvents s') = growthEvents (sizeTier (player s)) n
           \<and> pradius (player s')
               = (if n = 0 then pradius (player s) else playerRadiusForSizeTier (sizeTier (player s')))
           \<and> (\<forall>j<n. nextGrowthScore (run s) + 1000 * real j \<le> score (run s')
                      \<and> sizeTier (player s) + real j < MAX_SIZE_TIER)
           \<and> (score (run s') < nextGrowthScore (run s') \<or> MAX_SIZE_TIER \<le> sizeTier (player s'))
           \<and> (nextGrowthScore (run s) + 1000 \<le> score (run s')
                \<and> sizeTier (player s) + 1 < MAX_SIZE_TIER
              \<longrightarrow> (\<exists>rest. filter isGrowth (pendingEvents s')
                    = EvGrowth (sizeTier (player s) + 1) # EvGrowth (sizeTier (player s) + 2) # rest))
           \<and> (nextGrowthScore (run s) \<le> score (run s')
                \<and> sizeTier (player s) < MAX_SIZE_TIER \<and> MAX_SIZE_TIER \<le> sizeTier (player s) + 1
              \<longrightarrow> filter isGrowth (pendingEvents s') = [EvGrowth (sizeTier (player s) + 1)])"
    apply (rule exI [of _ n])
    using g2 two one by blast
qed

theorem tick_growth_witness:
  "playsThisTick killState quietInput
   \<and> 0 < extraLifeScoreStep (difficulty killState)
   \<and> nextGrowthScore (run killState) + 1000 \<le> 2400
   \<and> sizeTier (player killState) + 1 < MAX_SIZE_TIER
   \<and> map_option (filter isGrowth \<circ> pendingEvents \<circ> fst) (tickGame killState quietInput 16 halfDraws)
       = Some [EvGrowth (sizeTier (player killState) + 1), EvGrowth (sizeTier (player killState) + 2)]
   \<and> playsThisTick lastTierState quietInput
   \<and> map_option (score \<circ> run \<circ> fst) (tickGame lastTierState quietInput 16 halfDraws) = Some 4400
   \<and> nextGrowthScore (run lastTierState) \<le> 4400
   \<and> sizeTier (player lastTierState) < MAX_SIZE_TIER
   \<and> MAX_SIZE_TIER \<le> sizeTier (player lastTierState) + 1
   \<and> map_option (filter isGrowth \<circ> pendingEvents \<circ> fst) (tickGame lastTierState quietInput 16 halfDraws)
       = Some [EvGrowth (sizeTier (player lastTierState) + 1)]"
proof -
  have h: "playsThisTick killState quietInput" "0 < extraLifeScoreStep (difficulty killState)"
    by (simp_all add: playsThisTick_def killState_def demoState_def demoProfile_def quietInput_def)
  from tick_growth [OF h(1), of 16 halfDraws] h(2) obtain s' g' where
    "tickGame killState quietInput 16 halfDraws = Some (s', g')" by blast
  with kill_tick h have first: "playsThisTick killState quietInput
   \<and> 0 < extraLifeScoreStep (difficulty killState)
   \<and> nextGrowthScore (run killState) + 1000 \<le> 2400
   \<and> sizeTier (player killState) + 1 < MAX_SIZE_TIER
   \<and> map_option (filter isGrowth \<circ> pendingEvents \<circ> fst) (tickGame killState quietInput 16 halfDraws)
       = Some [EvGrowth (sizeTier (player killState) + 1), EvGrowth (sizeTier (player killState) + 2)]"
    by (simp add: killState_def demoState_def MAX_SIZE_TIER_def)
  have k: "playsThisTick lastTierState quietInput" "nextGrowthScore (run lastTierState) \<le> 4400"
    "sizeTier (player lastTierState) < MAX_SIZE_TIER"
    "MAX_SIZE_TIER \<le> sizeTier (player lastTierState) + 1"
    by (simp_all add: playsThisTick_def lastTierState_def killState_def demoState_def quietInput_def
        MAX_SIZE_TIER_def)
  obtain u gu where t: "tickGame lastTierState quietInput 16 halfDraws = Some (u, gu)"
    and sc: "score (run u) = 4400"
    using last_tier_tick by auto
  from tick_growth [OF k(1), of 16 halfDraws] t
  have "nextGrowthScore (run lastTierState) \<le> score (run u)
          \<and> sizeTier (player lastTierState) < MAX_SIZE_TIER
          \<and> MAX_SIZE_TIER \<le> sizeTier (player lastTierState) + 1
        \<longrightarrow> filter isGrowth (pendingEvents u) = [EvGrowth (sizeTier (player lastTierState) + 1)]"
    by blast
  with k sc have "filter isGrowth (pendingEvents u) = [EvGrowth (sizeTier (player lastTierState) + 1)]"
    by simp
  with t sc k have second: "playsThisTick lastTierState quietInput
   \<and> map_option (score \<circ> run \<circ> fst) (tickGame lastTierState quietInput 16 halfDraws) = Some 4400
   \<and> nextGrowthScore (run lastTierState) \<le> 4400
   \<and> sizeTier (player lastTierState) < MAX_SIZE_TIER
   \<and> MAX_SIZE_TIER \<le> sizeTier (player lastTierState) + 1
   \<and> map_option (filter isGrowth \<circ> pendingEvents \<circ> fst) (tickGame lastTierState quietInput 16 halfDraws)
       = Some [EvGrowth (sizeTier (player lastTierState) + 1)]"
    by simp
  from first second show ?thesis by blast
qed

text \<open>
  C7 as stated fails: at tier 4 a tick that takes the score from 2900 to 4400, over the
  thresholds 3000 and 4000, has one growth event, that of tier 5.
\<close>

theorem last_tier_counterexample:
  "mode lastTierState = Playing
   \<and> sizeTier (player lastTierState) = 4
   \<and> score (run lastTierState) = 2900
   \<and> nextGrowthScore (run lastTierState) = 3000
   \<and> map_option (score \<circ> run \<circ> fst) (tickGame lastTierState quietInput 16 halfDraws) = Some 4400
   \<and> map_option (filter isGrowth \<circ> pendingEvents \<circ> fst)
        (tickGame lastTierState quietInput 16 halfDraws) = Some [EvGrowth 5]"
proof -
  obtain s' g' where "tickGame lastTierState quietInput 16 halfDraws = Some (s', g')"
    "filter isGrowth (pendingEvents s') = [EvGrowth 5]" "score (run s') = 4400"
    using last_tier_tick by auto
  then show ?thesis
    by (simp add: lastTierState_def killState_def demoState_def)
qed

section \<open>Milestones\<close>




section \<open>The spawner\<close>

lemma spawnAtEdge_kind: "kind (fst (spawnAtEdge s k g)) = k"
  by (simp add: spawnAtEdge_def Let_def split_beta)

lemma spawnKind_gates:
  "isKindUnlocked (fst (spawnKind dt k' sg)) k = isKindUnlocked (fst sg) k"
  "spawnRateForKind (fst (spawnKind dt k' sg)) k = spawnRateForKind (fst sg) k"
  "spawnCapForKind (fst (spawnKind dt k' sg)) k = spawnCapForKind (fst sg) k"
  using spawnKind_frame [of sg dt k']
  by (simp_all add: spawnFrame_def isKindUnlocked_def spawnRateForKind_def spawnCapForKind_def)

lemma gates_timers:
  "spawnRateForKind (s\<lparr>spawnTimers := t\<rparr>) k = spawnRateForKind s k"
  "spawnCapForKind (s\<lparr>spawnTimers := t\<rparr>) k = spawnCapForKind s k"
  "isKindUnlocked (s\<lparr>spawnTimers := t\<rparr>) k = isKindUnlocked s k"
  "countByKind (s\<lparr>spawnTimers := t\<rparr>) k = countByKind s k"
  by (simp_all add: spawnRateForKind_def spawnCapForKind_def isKindUnlocked_def countByKind_def)

lemma countByKind_push:
  "countByKind (s\<lparr>spawnTimers := t, entities := entities s @ [e], nextEntityId := n\<rparr>) k
     = countByKind s k + (if kind e = k then 1 else 0)"
  by (simp add: countByKind_def)

lemma spawnDue_unlocked: "\<not> isKindUnlocked s k \<Longrightarrow> \<not> spawnDue s dt k"
  by (simp add: spawnDue_def)

lemma spawnKind_unfold:
  "fst (spawnKind dt k (s, g)) =
     (if \<not> isKindUnlocked s k then s
      else if spawnDue s dt k
      then s\<lparr>spawnTimers := (spawnTimers s)(k := 0),
             entities := entities s
               @ [fst (spawnAtEdge (s\<lparr>spawnTimers := (spawnTimers s)(k := 0)\<rparr>) k g)],
             nextEntityId := nextEntityId s + 1\<rparr>
      else s\<lparr>spawnTimers := (spawnTimers s)(k := spawnTimers s k + dt)\<rparr>)"
proof (cases "isKindUnlocked s k")
  case False
  then show ?thesis by (simp add: spawnKind_def)
next
  case u: True
  show ?thesis
  proof (cases "spawnRateForKind s k \<le> 0")
    case True
    then have "\<not> spawnDue s dt k" by (simp add: spawnDue_def)
    with u True show ?thesis
      by (simp add: spawnKind_def spawnRates_def gates_timers Let_def)
  next
    case r: False
    define iv where "iv = 1 / spawnRateForKind s k"
    show ?thesis
    proof (cases "iv \<le> spawnTimers s k + dt \<and> real (countByKind s k) < spawnCapForKind s k")
      case True
      with u r have "spawnDue s dt k" by (simp add: spawnDue_def iv_def)
      with u r True show ?thesis
        by (simp add: spawnKind_def spawnRates_def gates_timers Let_def split_beta
            iv_def [symmetric])
    next
      case False
      with u r have "\<not> spawnDue s dt k" by (simp add: spawnDue_def iv_def)
      with u r False show ?thesis
        by (auto simp: spawnKind_def spawnRates_def gates_timers Let_def iv_def [symmetric])
    qed
  qed
qed

lemma spawnKind_other:
  assumes "k' \<noteq> k"
  shows "spawnTimers (fst (spawnKind dt k' sg)) k = spawnTimers (fst sg) k"
    and "countByKind (fst (spawnKind dt k' sg)) k = countByKind (fst sg) k"
proof -
  obtain s g where sg: "sg = (s, g)" by (cases sg)
  show "spawnTimers (fst (spawnKind dt k' sg)) k = spawnTimers (fst sg) k"
    using assms by (simp add: sg spawnKind_unfold)
  show "countByKind (fst (spawnKind dt k' sg)) k = countByKind (fst sg) k"
    using assms by (simp add: sg spawnKind_unfold gates_timers countByKind_push spawnAtEdge_kind)
qed

lemma spawnDue_other:
  assumes "k' \<noteq> k"
  shows "spawnDue (fst (spawnKind dt k' sg)) dt k = spawnDue (fst sg) dt k"
  by (simp add: spawnDue_def spawnKind_gates spawnKind_other [OF assms])

lemma spawnKind_same:
  "spawnTimers (fst (spawnKind dt k sg)) k =
     (if \<not> isKindUnlocked (fst sg) k then spawnTimers (fst sg) k
      else if spawnDue (fst sg) dt k then 0 else spawnTimers (fst sg) k + dt)"
  "countByKind (fst (spawnKind dt k sg)) k
     = countByKind (fst sg) k + (if spawnDue (fst sg) dt k then 1 else 0)"
proof -
  obtain s g where sg: "sg = (s, g)" by (cases sg)
  show "spawnTimers (fst (spawnKind dt k sg)) k =
     (if \<not> isKindUnlocked (fst sg) k then spawnTimers (fst sg) k
      else if spawnDue (fst sg) dt k then 0 else spawnTimers (fst sg) k + dt)"
    by (simp add: sg spawnKind_unfold)
  show "countByKind (fst (spawnKind dt k sg)) k
     = countByKind (fst sg) k + (if spawnDue (fst sg) dt k then 1 else 0)"
    by (simp add: sg spawnKind_unfold gates_timers countByKind_push spawnAtEdge_kind
        spawnDue_unlocked)
qed

text \<open>
  C8, as the code has it. After \<open>maybeSpawn\<close>, for every kind: the timer of a locked
  kind is as before; the timer of an unlocked kind has accumulated \<open>dt\<close>, whether or
  not the kind is under its cap and whatever its rate, unless a spawn was due, and then
  it is 0; the number of entities of the kind has grown by exactly one when a spawn
  was due and is as before otherwise. With a rate \<open>\<le> 0\<close> no spawn is ever due.
\<close>

theorem maybeSpawn_kind:
  "spawnTimers (fst (maybeSpawn s dt g)) k =
     (if \<not> isKindUnlocked s k then spawnTimers s k
      else if spawnDue s dt k then 0 else spawnTimers s k + dt)
   \<and> countByKind (fst (maybeSpawn s dt g)) k
       = countByKind s k + (if spawnDue s dt k then 1 else 0)
   \<and> (spawnRateForKind s k \<le> 0 \<longrightarrow> \<not> spawnDue s dt k)"
proof -
  have r: "spawnRateForKind s k \<le> 0 \<longrightarrow> \<not> spawnDue s dt k"
    by (simp add: spawnDue_def)
  have "spawnTimers (fst (maybeSpawn s dt g)) k =
     (if \<not> isKindUnlocked s k then spawnTimers s k
      else if spawnDue s dt k then 0 else spawnTimers s k + dt)
   \<and> countByKind (fst (maybeSpawn s dt g)) k
       = countByKind s k + (if spawnDue s dt k then 1 else 0)"
    by (cases k)
      (simp_all only: maybeSpawn_def foldl.simps spawnKind_same spawnKind_other spawnDue_other
        spawnKind_gates fst_conv EntityKind.distinct not_False_eq_True simp_thms if_True if_False)
  with r show ?thesis by blast
qed

theorem maybeSpawn_kind_witness:
  "spawnDue dueState (16 / 1000) Prey
   \<and> spawnTimers (fst (maybeSpawn dueState (16 / 1000) halfDraws)) Prey = 0
   \<and> countByKind (fst (maybeSpawn dueState (16 / 1000) halfDraws)) Prey = 1
   \<and> \<not> isKindUnlocked dueState Apex
   \<and> spawnTimers (fst (maybeSpawn dueState (16 / 1000) halfDraws)) Apex = 0
   \<and> spawnTimers (fst (maybeSpawn dueState (16 / 1000) halfDraws)) Predator = 16 / 1000"
proof -
  have d: "spawnDue dueState (16 / 1000) Prey" "\<not> isKindUnlocked dueState Apex"
    "isKindUnlocked dueState Predator" "\<not> spawnDue dueState (16 / 1000) Predator"
    by (simp_all add: spawnDue_def isKindUnlocked_def spawnRateForKind_def spawnCapForKind_def
        countByKind_def dueState_def demoState_def demoProfile_def)
  have t: "spawnTimers dueState Apex = 0" "spawnTimers dueState Predator = 0"
    "countByKind dueState Prey = 0" "isKindUnlocked dueState Prey"
    by (simp_all add: dueState_def demoState_def countByKind_def isKindUnlocked_def)
  show ?thesis
    using maybeSpawn_kind [of dueState "16 / 1000" halfDraws Prey]
      maybeSpawn_kind [of dueState "16 / 1000" halfDraws Apex]
      maybeSpawn_kind [of dueState "16 / 1000" halfDraws Predator] d t
    by simp
qed

text \<open>
  C8 as stated fails: an apex is unlocked and at its cap of one, and its timer
  accumulates all the same.
\<close>

theorem timer_at_cap_counterexample:
  "isKindUnlocked capState Apex
   \<and> \<not> real (countByKind capState Apex) < spawnCapForKind capState Apex
   \<and> spawnTimers capState Apex = 0
   \<and> spawnTimers (fst (maybeSpawn capState (16 / 1000) halfDraws)) Apex = 16 / 1000"
  by (simp add: maybeSpawn_def spawnKind_def isKindUnlocked_def spawnRateForKind_def
      spawnCapForKind_def countByKind_def spawnRates_def capState_def demoState_def
      demoProfile_def demoApex_def Let_def)

section \<open>Contact with an apex\<close>

text \<open>
  C1, as the code has it. An overlap with an apex that is not a successful tail hit
  falls through to the common path of \<open>handlePlayerCollision\<close>: an apex is never
  edible, so the overlap is a hostile contact. While the player is invulnerable
  nothing changes and no event is emitted; otherwise the player loses a life and a
  player-hit event is emitted, with game over at no lives left and a respawn otherwise.
\<close>

theorem apex_body_contact:
  assumes "overlapsFishFootprint (player s) e (playerHitboxScale (difficulty s))
             (enemyHitboxScale (difficulty s))"
    and "kind e = Apex" and "combat e = Some c"
    and "\<not> (tailHitOpen s e c \<and> hitCooldownReady s c)"
  shows "handlePlayerCollision s e g =
     (if timeSeconds (run s) < invulnerableUntil (player s)
      then \<lparr>cstate = s, centity = e, consumed = False, events = [], crng = g\<rparr>
      else if lives (player s) - 1 \<le> 0
      then \<lparr>cstate = s\<lparr>player := (player s)\<lparr>lives := lives (player s) - 1\<rparr>, mode := GameOver\<rparr>,
            centity = e, consumed = False,
            events = [EvPlayerHit (lives (player s) - 1), EvGameOver (score (run s))], crng = g\<rparr>
      else \<lparr>cstate = fst (resetPlayerAfterHit (s\<lparr>player := (player s)\<lparr>lives := lives (player s) - 1\<rparr>\<rparr>) g),
            centity = e, consumed = False,
            events = [EvPlayerHit (lives (player s) - 1)],
            crng = snd (resetPlayerAfterHit (s\<lparr>player := (player s)\<lparr>lives := lives (player s) - 1\<rparr>\<rparr>) g)\<rparr>)"
proof -
  have "canEat (sizeTier (player s)) e = False"
    using assms(2) by (simp add: canEat_def split: option.splits)
  with assms show ?thesis
    by (auto simp: handlePlayerCollision_def eatOrHostile_def Let_def split_beta)
qed

lemma front_facts:
  "overlapsFishFootprint (player frontState) frontApex (playerHitboxScale (difficulty frontState))
     (enemyHitboxScale (difficulty frontState))"
  "kind frontApex = Apex" "combat frontApex = Some frontCombat"
  "\<not> tailHitOpen frontState frontApex frontCombat"
  "\<not> timeSeconds (run frontState) < invulnerableUntil (player frontState)"
  "lives (player frontState) = 3"
  by (simp_all add: frontState_def frontApex_def frontCombat_def demoState_def demoProfile_def
      overlapsFishFootprint_def fishExtents_def tailHitOpen_def Let_def)

theorem apex_body_contact_witness:
  "overlapsFishFootprint (player shieldedState) frontApex (playerHitboxScale (difficulty shieldedState))
     (enemyHitboxScale (difficulty shieldedState))
   \<and> kind frontApex = Apex \<and> combat frontApex = Some frontCombat
   \<and> \<not> (tailHitOpen shieldedState frontApex frontCombat \<and> hitCooldownReady shieldedState frontCombat)
   \<and> handlePlayerCollision shieldedState frontApex halfDraws
       = \<lparr>cstate = shieldedState, centity = frontApex, consumed = False, events = [], crng = halfDraws\<rparr>
   \<and> events (handlePlayerCollision frontState frontApex halfDraws) = [EvPlayerHit 2]"
proof -
  have a: "overlapsFishFootprint (player shieldedState) frontApex
      (playerHitboxScale (difficulty shieldedState)) (enemyHitboxScale (difficulty shieldedState))"
    "\<not> (tailHitOpen shieldedState frontApex frontCombat \<and> hitCooldownReady shieldedState frontCombat)"
    "timeSeconds (run shieldedState) < invulnerableUntil (player shieldedState)"
    by (simp_all add: shieldedState_def frontState_def frontApex_def frontCombat_def demoState_def
        demoProfile_def overlapsFishFootprint_def fishExtents_def tailHitOpen_def Let_def)
  have b: "\<not> (tailHitOpen frontState frontApex frontCombat \<and> hitCooldownReady frontState frontCombat)"
    using front_facts(4) by simp
  show ?thesis
    using apex_body_contact [OF a(1) front_facts(2,3) a(2), of halfDraws]
      apex_body_contact [OF front_facts(1,2,3) b, of halfDraws] a front_facts
    by simp
qed

text \<open>
  C1 as stated fails: the player overlaps an apex from the front, the tail is not
  open, the player is not invulnerable, and a life is lost; the tick that contains this
  overlap emits the player-hit event.
\<close>

theorem apex_front_hit_counterexample:
  "overlapsFishFootprint (player frontState) frontApex (playerHitboxScale (difficulty frontState))
     (enemyHitboxScale (difficulty frontState))
   \<and> kind frontApex = Apex \<and> combat frontApex = Some frontCombat
   \<and> \<not> tailHitOpen frontState frontApex frontCombat
   \<and> lives (player frontState) = 3
   \<and> lives (player (cstate (handlePlayerCollision frontState frontApex halfDraws))) = 2
   \<and> events (handlePlayerCollision frontState frontApex halfDraws) = [EvPlayerHit 2]
   \<and> map_option (pendingEvents \<circ> fst) (tickGame frontState quietInput 16 halfDraws)
       = Some [EvPlayerHit 2]"
proof -
  have h: "lives (player (cstate (handlePlayerCollision frontState frontApex halfDraws))) = 2"
    "events (handlePlayerCollision frontState frontApex halfDraws) = [EvPlayerHit 2]"
    by (simp_all add: frontState_def frontApex_def demoState_def demoProfile_def
      handlePlayerCollision_def eatOrHostile_def canEat_def resetPlayerAfterHit_def rnd_def random_def
      overlapsFishFootprint_def fishExtents_def tailHitOpen_def Let_def)
  have t: "map_option (pendingEvents \<circ> fst) (tickGame frontState quietInput 16 halfDraws)
       = Some [EvPlayerHit 2]"
    apply (simp add: tickGame_def playTick_def frontState_def quietInput_def Let_def clamp_def)
    apply (simp add: demoState_def frontApex_def maybeSpawn_def spawnKind_def isKindUnlocked_def
      spawnRateForKind_def spawnCapForKind_def countByKind_def spawnRates_def demoProfile_def Let_def
      movePlayer_def updateEntityAI_def doesNpcAttackPlayer_def chaseSpeed_def wrap_def sub_def
      handlePlayerCollision_def overlapsFishFootprint_def fishExtents_def tailHitOpen_def
      hitCooldownReady_def eatOrHostile_def canEat_def resetPlayerAfterHit_def rnd_def random_def
      halfDraws_def dist_v_def
      updateGrowthAndLives_def growthLoop.simps milestoneStep_def milestoneForScore_def
      updateApexThreatState_def normalize_v_def len_def scale_def add_def lerp_def clamp_def
      ARENA_def origin_def)
    done
  from front_facts h t show ?thesis by simp
qed

section \<open>Killing an apex\<close>

lemma handle_eid: "eid (centity (handlePlayerCollision s e g)) = eid e"
  by (simp add: handlePlayerCollision_def eatOrHostile_def applyTailHit_def Let_def split_beta
      split: option.splits)

lemma collideAll_ids:
  "eid ` set (fst (snd (collideAll es (s, surv, g)))) \<subseteq> eid ` set surv \<union> eid ` set es"
proof (induction es arbitrary: s surv g)
  case Nil
  show ?case by simp
next
  case (Cons e es)
  let ?r = "handlePlayerCollision s e g"
  let ?s1 = "(cstate ?r)\<lparr>pendingEvents := pendingEvents (cstate ?r) @ events ?r\<rparr>"
  show ?case
  proof (cases "consumed ?r")
    case True
    with Cons.IH [of ?s1 surv "crng ?r"] show ?thesis by (auto simp: Let_def)
  next
    case False
    with Cons.IH [of ?s1 "surv @ [centity ?r]" "crng ?r"] handle_eid [of s e g]
    show ?thesis by (auto simp: Let_def)
  qed
qed

text \<open>
  C6, as the code has it. A tail hit with the cooldown ready on an apex of health 1
  consumes the apex and yields exactly five events, in this order: the apex-hit event
  with health 0, the score event of the hit, the apex-intensity event, the score event
  of the kill bonus, the apex-killed event. The bonus is twice the points of the hit,
  the threat intensity is left at 0, and the loop over the entities does not keep the
  apex: no survivor carries its identifier when no other entity does.
\<close>

theorem apex_kill:
  assumes "overlapsFishFootprint (player s) e (playerHitboxScale (difficulty s))
             (enemyHitboxScale (difficulty s))"
    and "kind e = Apex" and "combat e = Some c" and "health c = 1"
    and "tailHitOpen s e c" and "hitCooldownReady s c"
  shows "consumed (handlePlayerCollision s e g)
     \<and> (\<exists>v. events (handlePlayerCollision s e g) =
          [EvApexHit (eid e) (apexTailDamageForPlayer (sizeTier (player s))) 0 (maxHealth c)
             (pointsForApexTailHit (scoreMultiplier (difficulty s))) (pos e),
           EvScore (pointsForApexTailHit (scoreMultiplier (difficulty s))),
           EvApexIntensity v,
           EvScore (pointsForApexTailHit (scoreMultiplier (difficulty s)) * 2),
           EvApexKilled (eid e) (pointsForApexTailHit (scoreMultiplier (difficulty s)) * 2) (pos e)])
     \<and> intensity (apexThreat (cstate (handlePlayerCollision s e g))) = 0
     \<and> score (run (cstate (handlePlayerCollision s e g)))
         = score (run s) + pointsForApexTailHit (scoreMultiplier (difficulty s))
           + pointsForApexTailHit (scoreMultiplier (difficulty s)) * 2
     \<and> (\<forall>rest surv. eid e \<notin> eid ` set surv \<and> eid e \<notin> eid ` set rest
          \<longrightarrow> eid e \<notin> eid ` set (fst (snd (collideAll (e # rest) (s, surv, g)))))"
proof -
  let ?r = "handlePlayerCollision s e g"
  have r: "?r = applyTailHit s e c g"
    using assms by (simp add: handlePlayerCollision_def Let_def)
  have d: "health c - apexTailDamageForPlayer (sizeTier (player s)) \<le> 0"
    using assms(4) by (simp add: apexTailDamageForPlayer_def)
  have c: "consumed ?r" using d by (simp add: r applyTailHit_def Let_def)
  have ev: "\<exists>v. events ?r =
          [EvApexHit (eid e) (apexTailDamageForPlayer (sizeTier (player s))) 0 (maxHealth c)
             (pointsForApexTailHit (scoreMultiplier (difficulty s))) (pos e),
           EvScore (pointsForApexTailHit (scoreMultiplier (difficulty s))),
           EvApexIntensity v,
           EvScore (pointsForApexTailHit (scoreMultiplier (difficulty s)) * 2),
           EvApexKilled (eid e) (pointsForApexTailHit (scoreMultiplier (difficulty s)) * 2) (pos e)]"
    using d by (simp add: r applyTailHit_def Let_def max_def)
  have th: "intensity (apexThreat (cstate ?r)) = 0"
    "score (run (cstate ?r))
         = score (run s) + pointsForApexTailHit (scoreMultiplier (difficulty s))
           + pointsForApexTailHit (scoreMultiplier (difficulty s)) * 2"
    using d by (simp_all add: r applyTailHit_def Let_def)
  have gone: "eid e \<notin> eid ` set (fst (snd (collideAll (e # rest) (s, surv, g))))"
    if "eid e \<notin> eid ` set surv \<and> eid e \<notin> eid ` set rest" for rest surv
  proof -
    let ?s1 = "(cstate ?r)\<lparr>pendingEvents := pendingEvents (cstate ?r) @ events ?r\<rparr>"
    have "collideAll (e # rest) (s, surv, g) = collideAll rest (?s1, surv, crng ?r)"
      using c by (simp add: Let_def)
    with collideAll_ids [of rest ?s1 surv "crng ?r"] that show ?thesis by auto
  qed
  from c ev th gone show ?thesis by blast
qed

lemma tail_facts:
  "overlapsFishFootprint (player killState) tailApex (playerHitboxScale (difficulty killState))
     (enemyHitboxScale (difficulty killState))"
  "kind tailApex = Apex" "combat tailApex = Some tailCombat" "health tailCombat = 1"
  "tailHitOpen killState tailApex tailCombat" "hitCooldownReady killState tailCombat"
  by (simp_all add: killState_def tailApex_def tailCombat_def demoState_def demoProfile_def
      overlapsFishFootprint_def fishExtents_def tailHitOpen_def hitCooldownReady_def
      APEX_HIT_COOLDOWN_SECONDS_def Let_def)

theorem apex_kill_witness:
  "overlapsFishFootprint (player killState) tailApex (playerHitboxScale (difficulty killState))
     (enemyHitboxScale (difficulty killState))
   \<and> kind tailApex = Apex \<and> combat tailApex = Some tailCombat \<and> health tailCombat = 1
   \<and> tailHitOpen killState tailApex tailCombat \<and> hitCooldownReady killState tailCombat
   \<and> consumed (handlePlayerCollision killState tailApex halfDraws)
   \<and> intensity (apexThreat (cstate (handlePlayerCollision killState tailApex halfDraws))) = 0
   \<and> score (run (cstate (handlePlayerCollision killState tailApex halfDraws))) = 2400
   \<and> fst (snd (collideAll [tailApex] (killState, [], halfDraws))) = []"
proof -
  note k = apex_kill [OF tail_facts, of halfDraws]
  have p: "pointsForApexTailHit (scoreMultiplier (difficulty killState)) = 500"
    "score (run killState) = 900"
    by (simp_all add: pointsForApexTailHit_def killState_def demoState_def demoProfile_def)
  from k have c: "consumed (handlePlayerCollision killState tailApex halfDraws)"
    and i: "intensity (apexThreat (cstate (handlePlayerCollision killState tailApex halfDraws))) = 0"
    and sc: "score (run (cstate (handlePlayerCollision killState tailApex halfDraws)))
         = score (run killState) + pointsForApexTailHit (scoreMultiplier (difficulty killState))
           + pointsForApexTailHit (scoreMultiplier (difficulty killState)) * 2"
    by blast+
  from c have "fst (snd (collideAll [tailApex] (killState, [], halfDraws))) = []"
    by (simp add: Let_def)
  with c i sc tail_facts p show ?thesis by simp
qed

text \<open>
  C6 as stated fails in one point: the event that follows the apex-hit event
  immediately is the score event of the hit; the apex-killed event is the fifth.
\<close>

theorem apex_killed_not_adjacent_counterexample:
  "map_option (take 2 \<circ> pendingEvents \<circ> fst) (tickGame killState quietInput 16 halfDraws)
     = Some [EvApexHit 7 1 0 3 500 \<lparr>xc = 2426694784 / 10000000, yc = 270\<rparr>, EvScore 500]
   \<and> map_option (hd \<circ> drop 4 \<circ> pendingEvents \<circ> fst) (tickGame killState quietInput 16 halfDraws)
     = Some (EvApexKilled 7 1000 \<lparr>xc = 2426694784 / 10000000, yc = 270\<rparr>)"
proof -
  obtain s' g' where "tickGame killState quietInput 16 halfDraws = Some (s', g')"
    "pendingEvents s' = [EvApexHit 7 1 0 3 500 \<lparr>xc = 2426694784 / 10000000, yc = 270\<rparr>, EvScore 500,
            EvApexIntensity 1, EvScore 1000,
            EvApexKilled 7 1000 \<lparr>xc = 2426694784 / 10000000, yc = 270\<rparr>,
            EvGrowth 3, EvGrowth 4, EvMilestone 2]"
    by (rule kill_tick_returns)
  then show ?thesis by simp
qed

section \<open>The respawn and its cull\<close>

text \<open>
  C3 at a failing input. A predator of size class 3 sits on a player of tier 2 with
  three lives. The tick costs a life and respawns the player at x = 172.8; the
  predator, 38.4 units from there, is in the entities of the resulting state:
  \<open>resetPlayerAfterHit\<close> assigns the culled array to \<open>state.entities\<close> inside the loop,
  and \<open>tickGame\<close> assigns the survivors of the loop, which iterates over the array as it
  was, to \<open>state.entities\<close> afterwards.
\<close>

theorem cull_overwritten:
  "map_option (\<lambda>(s', g'). (lives (player s'), ppos (player s'), pvel (player s'),
                             invulnerableUntil (player s'), map pos (entities s'),
                             pendingEvents s'))
      (tickGame biteState quietInput 16 halfDraws)
     = Some (2, \<lparr>xc = 1728 / 10, yc = 270\<rparr>, \<lparr>xc = 0, yc = 0\<rparr>, 5 + 16 / 1000 + 2,
             [\<lparr>xc = 2112 / 10, yc = 270\<rparr>], [EvPlayerHit 2])
   \<and> dist_v \<lparr>xc = 2112 / 10, yc = 270\<rparr> \<lparr>xc = 1728 / 10, yc = 270\<rparr> \<le> 120"
  apply (simp add: tickGame_def playTick_def biteState_def quietInput_def Let_def clamp_def)
  apply (simp add: demoState_def bitePredator_def maybeSpawn_def spawnKind_def isKindUnlocked_def
      spawnRateForKind_def spawnCapForKind_def countByKind_def spawnRates_def demoProfile_def Let_def
      movePlayer_def updateEntityAI_def doesNpcAttackPlayer_def wrap_def sub_def
      handlePlayerCollision_def overlapsFishFootprint_def fishExtents_def
      eatOrHostile_def canEat_def isNpcEdible_def resetPlayerAfterHit_def rnd_def random_def
      halfDraws_def dist_v_def
      updateGrowthAndLives_def growthLoop.simps milestoneStep_def milestoneForScore_def
      updateApexThreatState_def normalize_v_def len_def scale_def add_def lerp_def clamp_def
      ARENA_def origin_def)
  done

section \<open>Where the generator is called\<close>



lemma updateEntityAI_parts:
  "updateEntityAI s e dt g = (steerRest s (fst (steerNpc s e dt g)) dt, snd (steerNpc s e dt g))"
  unfolding updateEntityAI_def steerNpc_def steerRest_def Let_def split_beta
  by (rule refl)







lemma handle_cases:
  "handlePlayerCollision s e g =
     (if \<not> overlapsFishFootprint (player s) e (playerHitboxScale (difficulty s))
             (enemyHitboxScale (difficulty s))
      then \<lparr>cstate = s, centity = e, consumed = False, events = [], crng = g\<rparr>
      else if tailHit s e
      then (case combat e of Some c \<Rightarrow> applyTailHit s e c g | None \<Rightarrow> eatOrHostile s e g)
      else eatOrHostile s e g)"
  by (simp add: handlePlayerCollision_def tailHit_def Let_def split: option.splits)

































section \<open>The bounds of the threat intensity\<close>

lemma spawnAtEdge_sound:
  assumes "0 < apexMaxHealth (difficulty s)"
  shows "apexSound (fst (spawnAtEdge s k g))"
  using assms by (simp add: spawnAtEdge_def apexSound_def Let_def split_beta)

lemma spawnKind_inv:
  assumes "threatInv (fst sg)"
  shows "threatInv (fst (spawnKind dt k sg))"
proof -
  obtain s g where sg: "sg = (s, g)" by (cases sg)
  have "apexSound (fst (spawnAtEdge (s\<lparr>spawnTimers := t\<rparr>) k g))" for t
    using assms spawnAtEdge_sound [of "s\<lparr>spawnTimers := t\<rparr>" k g] by (simp add: sg threatInv_def)
  with assms show ?thesis
    by (simp add: sg spawnKind_unfold threatInv_def)
qed

lemma maybeSpawn_inv:
  assumes "threatInv s"
  shows "threatInv (fst (maybeSpawn s dt g))"
  using assms by (simp add: maybeSpawn_def spawnKind_inv)

lemma steer_combat:
  "combat (fst (steerNpc s e dt g)) = combat e"
  "combat (steerRest s e dt) = combat e"
  by (simp_all add: steerNpc_def steerRest_def Let_def split_beta)

lemma updateEntityAI_sound: "apexSound (fst (updateEntityAI s e dt g)) = apexSound e"
  by (simp add: updateEntityAI_parts apexSound_def steer_combat)

lemma updateEntitiesAI_sound:
  "list_all apexSound es \<Longrightarrow> list_all apexSound (fst (updateEntitiesAI s dt es g))"
  by (induction es arbitrary: g) (simp_all add: split_beta updateEntityAI_sound)

lemma applyTailHit_inv:
  assumes "0 \<le> intensity (apexThreat s)" "intensity (apexThreat s) \<le> 1"
    and "0 < maxHealth c" "0 \<le> health c" "health c \<le> maxHealth c"
  shows "0 \<le> intensity (apexThreat (cstate (applyTailHit s e c g)))"
    and "intensity (apexThreat (cstate (applyTailHit s e c g))) \<le> 1"
    and "\<not> consumed (applyTailHit s e c g) \<Longrightarrow> apexSound (centity (applyTailHit s e c g))"
    and "difficulty (cstate (applyTailHit s e c g)) = difficulty s"
proof -
  have d: "0 < apexTailDamageForPlayer (sizeTier (player s))"
    by (simp add: apexTailDamageForPlayer_def)
  have cl: "0 \<le> clamp v 0 1" "clamp v 0 1 \<le> 1" for v
    by (simp_all add: clamp_def)
  show "0 \<le> intensity (apexThreat (cstate (applyTailHit s e c g)))"
    using assms(1) by (simp add: applyTailHit_def Let_def cl le_max_iff_disj)
  show "intensity (apexThreat (cstate (applyTailHit s e c g))) \<le> 1"
    using assms(2) by (simp add: applyTailHit_def Let_def cl)
  show "apexSound (centity (applyTailHit s e c g))" if "\<not> consumed (applyTailHit s e c g)"
    using that assms(3,5) d
    by (simp add: applyTailHit_def Let_def apexSound_def split: if_splits)
  show "difficulty (cstate (applyTailHit s e c g)) = difficulty s"
    by (simp add: applyTailHit_def Let_def)
qed

lemma reset_fields:
  "apexThreat (fst (resetPlayerAfterHit s g)) = apexThreat s"
  "difficulty (fst (resetPlayerAfterHit s g)) = difficulty s"
  by (simp_all add: resetPlayerAfterHit_def Let_def split_beta)

lemma eatOrHostile_inv:
  "apexThreat (cstate (eatOrHostile s e g)) = apexThreat s"
  "centity (eatOrHostile s e g) = e"
  "difficulty (cstate (eatOrHostile s e g)) = difficulty s"
  by (simp_all add: eatOrHostile_def Let_def split_beta reset_fields)

lemma handle_inv:
  assumes "0 \<le> intensity (apexThreat s)" "intensity (apexThreat s) \<le> 1" "apexSound e"
  shows "0 \<le> intensity (apexThreat (cstate (handlePlayerCollision s e g)))
     \<and> intensity (apexThreat (cstate (handlePlayerCollision s e g))) \<le> 1
     \<and> (\<not> consumed (handlePlayerCollision s e g) \<longrightarrow> apexSound (centity (handlePlayerCollision s e g)))
     \<and> difficulty (cstate (handlePlayerCollision s e g)) = difficulty s"
proof (cases "overlapsFishFootprint (player s) e (playerHitboxScale (difficulty s))
             (enemyHitboxScale (difficulty s)) \<and> tailHit s e")
  case True
  then obtain c where c: "combat e = Some c"
    by (auto simp: tailHit_def split: option.splits if_splits)
  with assms(3) have "0 < maxHealth c" "0 \<le> health c" "health c \<le> maxHealth c"
    by (simp_all add: apexSound_def)
  from applyTailHit_inv [OF assms(1,2) this, of e g] True c show ?thesis
    by (simp add: handle_cases)
next
  case False
  with assms show ?thesis
    by (auto simp: handle_cases eatOrHostile_inv)
qed

lemma collideAll_inv:
  assumes "0 \<le> intensity (apexThreat s)" "intensity (apexThreat s) \<le> 1"
    and "list_all apexSound surv" "list_all apexSound es"
    and "collideAll es (s, surv, g) = (s', surv', g')"
  shows "0 \<le> intensity (apexThreat s') \<and> intensity (apexThreat s') \<le> 1
     \<and> list_all apexSound surv' \<and> difficulty s' = difficulty s"
  using assms
proof (induction es arbitrary: s surv g)
  case Nil
  then show ?case by simp
next
  case (Cons e es)
  let ?r = "handlePlayerCollision s e g"
  let ?s1 = "(cstate ?r)\<lparr>pendingEvents := pendingEvents (cstate ?r) @ events ?r\<rparr>"
  let ?surv1 = "if \<not> consumed ?r then surv @ [centity ?r] else surv"
  from Cons.prems(4) have e: "apexSound e" and es: "list_all apexSound es" by simp_all
  note h = handle_inv [OF Cons.prems(1,2) e, of g]
  have a: "0 \<le> intensity (apexThreat ?s1)" "intensity (apexThreat ?s1) \<le> 1"
    using h by simp_all
  have b: "list_all apexSound ?surv1" using h Cons.prems(3) by simp
  have c: "collideAll es (?s1, ?surv1, crng ?r) = (s', surv', g')"
    using Cons.prems(5) by (simp add: Let_def)
  from Cons.IH [OF a b es c] h show ?case by simp
qed

lemma worldStep_inv:
  assumes "threatInv s"
  shows "threatInv (fst (worldStep s i dtMs g))"
proof -
  let ?dt = "clamp (dtMs / 1000) 0 (5 / 100)"
  let ?s2 = "s\<lparr>run := (run s)\<lparr>timeSeconds := timeSeconds (run s) + ?dt\<rparr>\<rparr>"
  obtain s3 g1 where sp: "maybeSpawn ?s2 ?dt g = (s3, g1)" by (cases "maybeSpawn ?s2 ?dt g")
  let ?s4 = "movePlayer s3 i ?dt"
  obtain ents g2 where ai: "updateEntitiesAI ?s4 ?dt (entities ?s4) g1 = (ents, g2)"
    by (cases "updateEntitiesAI ?s4 ?dt (entities ?s4) g1")
  let ?s5 = "?s4\<lparr>entities := ents\<rparr>"
  obtain s6 surv g3 where co: "collideAll ents (?s5, [], g2) = (s6, surv, g3)"
    by (cases "collideAll ents (?s5, [], g2)")
  have "threatInv ?s2" using assms by (simp add: threatInv_def)
  from maybeSpawn_inv [OF this, of ?dt g] sp have i3: "threatInv s3" by simp
  then have i4: "0 \<le> intensity (apexThreat ?s5)" "intensity (apexThreat ?s5) \<le> 1"
    "0 < apexMaxHealth (difficulty ?s5)" "list_all apexSound (entities ?s4)"
    by (simp_all add: threatInv_def movePlayer_def Let_def)
  have en: "list_all apexSound ents"
    using updateEntitiesAI_sound [OF i4(4), of ?s4 ?dt g1] ai by simp
  from collideAll_inv [OF i4(1,2) _ en co] i4(3)
  have "threatInv (s6\<lparr>entities := surv\<rparr>)" by (simp add: threatInv_def)
  moreover have "fst (worldStep s i dtMs g) = s6\<lparr>entities := surv\<rparr>"
    using sp ai co by (simp add: worldStep_def Let_def)
  ultimately show ?thesis by simp
qed

lemma damage_sum_bounds:
  assumes "list_all apexSound es"
  shows "0 \<le> sum_list (map damageFraction es) \<and> sum_list (map damageFraction es) \<le> real (length es)"
  using assms
proof (induction es)
  case Nil
  show ?case by simp
next
  case (Cons e es)
  have "0 \<le> damageFraction e \<and> damageFraction e \<le> 1"
    using Cons.prems
    by (auto simp: apexSound_def damageFraction_def split: option.splits)
  with Cons show ?case by simp
qed

lemma threat_inv:
  assumes "threatInv s"
  shows "threatInv (updateApexThreatState s)"
proof -
  let ?ap = "filter (\<lambda>e. kind e = Apex) (entities s)"
  have "list_all apexSound ?ap"
    using assms by (simp add: threatInv_def list_all_iff)
  from damage_sum_bounds [OF this]
  have b: "0 \<le> sum_list (map damageFraction ?ap)" "sum_list (map damageFraction ?ap) \<le> real (length ?ap)"
    by simp_all
  have i: "0 \<le> intensity (apexThreat s)" "intensity (apexThreat s) \<le> 1"
    using assms by (simp_all add: threatInv_def)
  have "0 \<le> intensity (apexThreat (updateApexThreatState s))
      \<and> intensity (apexThreat (updateApexThreatState s)) \<le> 1"
  proof (cases "?ap = []")
    case True
    with i show ?thesis by (simp add: updateApexThreatState_def Let_def)
  next
    case False
    then have n: "0 < real (length ?ap)" by simp
    have "sum_list (map damageFraction ?ap) / real (length ?ap) \<le> 1"
      using b(2) n by (simp add: divide_le_eq)
    moreover have "0 \<le> sum_list (map damageFraction ?ap) / real (length ?ap)"
      using b(1) by simp
    moreover have "intensity (apexThreat s) * (985 / 1000) \<le> 1" using i by simp
    ultimately show ?thesis
      using False i(1) by (simp add: updateApexThreatState_def Let_def foldl_damage_sum)
  qed
  with assms show ?thesis by (simp add: threatInv_def threat_fields)
qed

lemma tick_inv:
  assumes "threatInv s" "tickGame s i dtMs g = Some (s', g')"
  shows "threatInv s'"
proof (cases "playsThisTick s i")
  case False
  with assms show ?thesis
    by (auto simp: playsThisTick_def tickGame_def threatInv_def Let_def split: if_splits)
next
  case True
  let ?s1 = "s\<lparr>elapsedMs := elapsedMs s + dtMs, pendingEvents := [], mode := Playing\<rparr>"
  from assms(2) tick_plays [OF True] have "playTick ?s1 i dtMs g = Some (s', g')" by simp
  then obtain s7 sg where s7: "s7 = fst (worldStep ?s1 i dtMs g)"
    and loop: "growthLoop s7 = Some sg" and s': "s' = updateApexThreatState (milestoneStep sg)"
    by (rule playTick_parts)
  have "threatInv ?s1" using assms(1) by (simp add: threatInv_def)
  from worldStep_inv [OF this, of i dtMs g] s7 have "threatInv s7" by simp
  with growthLoop_frame [OF loop] have "threatInv sg"
    by (simp add: threatInv_def progressFrame_def)
  with milestoneStep_fields(5) [of sg] have "threatInv (milestoneStep sg)"
    by (simp add: threatInv_def progressFrame_def)
  from threat_inv [OF this] s' show ?thesis by simp
qed

lemma initial_inv:
  assumes "0 < apexMaxHealth (D k)"
  shows "threatInv (fst (createInitialGameState D k g))"
  using assms by (simp add: createInitialGameState_def threatInv_def Let_def split_beta)

lemma reachable_inv:
  assumes "\<forall>k. 0 < apexMaxHealth (D k)" and "reachable D s"
  shows "threatInv s"
  using assms(2)
proof (induction rule: reachable.induct)
  case (initial k g)
  from assms(1) show ?case by (simp add: initial_inv)
next
  case (ticked s i dtMs g s' g')
  then show ?case by (simp add: tick_inv)
next
  case (started s g)
  from assms(1) initial_inv [of D "key (difficulty s)" g] show ?case
    by (simp add: startNewRun_def split_beta threatInv_def)
next
  case (moded s m)
  then show ?case by (simp add: setMode_def threatInv_def)
next
  case (switched s k g)
  from assms(1) initial_inv [of D k g] show ?case
    by (simp add: setDifficulty_def split_beta threatInv_def)
qed

text \<open>
  C9. For a table of profiles with positive apex health, the threat intensity of
  every reachable state is within [0, 1]. The steps of a tick keep the invariant
  \<open>threatInv\<close>: a spawned apex starts at full health, a tail hit leaves a surviving
  apex with a health above 0 and raises the intensity to a clamped value or resets it,
  and the recomputation takes the larger of a decayed value and a mean of fractions
  within [0, 1], whatever the number of apex entities.
\<close>

theorem intensity_bounds:
  assumes "\<forall>k. 0 < apexMaxHealth (D k)" and "reachable D s"
  shows "0 \<le> intensity (apexThreat s) \<and> intensity (apexThreat s) \<le> 1"
  using reachable_inv [OF assms] by (simp add: threatInv_def)

theorem intensity_bounds_witness:
  "(\<forall>k. 0 < apexMaxHealth (demoTable k))
   \<and> reachable demoTable freshRun
   \<and> (\<exists>s' g'. tickGame freshRun quietInput 16 halfDraws = Some (s', g')
         \<and> reachable demoTable s'
         \<and> 0 \<le> intensity (apexThreat s') \<and> intensity (apexThreat s') \<le> 1)"
proof -
  have t: "\<forall>k. 0 < apexMaxHealth (demoTable k)"
    by (simp add: demoTable_def demoProfile_def)
  have r: "reachable demoTable freshRun"
    unfolding freshRun_def by (intro reachable.started reachable.initial)
  have p: "playsThisTick freshRun quietInput" "0 < extraLifeScoreStep (difficulty freshRun)"
    by (simp_all add: playsThisTick_def freshRun_def startNewRun_def createInitialGameState_def
        quietInput_def demoTable_def demoProfile_def Let_def split_beta)
  let ?s1 = "freshRun\<lparr>elapsedMs := elapsedMs freshRun + 16, pendingEvents := [], mode := Playing\<rparr>"
  from playTick_returns [of ?s1 quietInput 16 halfDraws] p(2) obtain s' g'
    where "playTick ?s1 quietInput 16 halfDraws = Some (s', g')" by auto
  with tick_plays [OF p(1), of 16 halfDraws]
  have tk: "tickGame freshRun quietInput 16 halfDraws = Some (s', g')" by simp
  from reachable.ticked [OF r tk] have r': "reachable demoTable s'" .
  from intensity_bounds [OF t r'] t r tk r' show ?thesis by blast
qed

section \<open>The threat intensity of a tick\<close>

lemma applyTailHit_hit: "filter isApexHit (events (applyTailHit s e c g)) \<noteq> []"
  by (simp add: applyTailHit_def Let_def)

lemma handle_quiet:
  assumes "filter isApexHit (events (handlePlayerCollision s e g)) = []"
  shows "apexThreat (cstate (handlePlayerCollision s e g)) = apexThreat s"
  using assms applyTailHit_hit [of s e _ g]
  by (auto simp: handle_cases eatOrHostile_inv split: if_splits option.splits)

lemma collideAll_quiet:
  assumes "collideAll es (s, surv, g) = (s', surv', g')"
  shows "\<exists>evs. pendingEvents s' = pendingEvents s @ evs
           \<and> (filter isApexHit evs = [] \<longrightarrow> apexThreat s' = apexThreat s)"
  using assms
proof (induction es arbitrary: s surv g)
  case Nil
  then show ?case by simp
next
  case (Cons e es)
  let ?r = "handlePlayerCollision s e g"
  let ?s1 = "(cstate ?r)\<lparr>pendingEvents := pendingEvents (cstate ?r) @ events ?r\<rparr>"
  from Cons.prems obtain sv where "collideAll es (?s1, sv, crng ?r) = (s', surv', g')"
    by (simp add: Let_def split: if_splits)
  from Cons.IH [OF this] obtain evs where a: "pendingEvents s' = pendingEvents ?s1 @ evs"
    and b: "filter isApexHit evs = [] \<longrightarrow> apexThreat s' = apexThreat ?s1" by blast
  have "pendingEvents s' = pendingEvents s @ (events ?r @ evs)"
    using a by (simp add: handle_pending)
  moreover have "apexThreat s' = apexThreat s" if "filter isApexHit (events ?r @ evs) = []"
    using that b handle_quiet [of s e g] by simp
  ultimately show ?case by blast
qed

lemma worldStep_quiet:
  assumes "pendingEvents s = []"
    and "filter isApexHit (pendingEvents (fst (worldStep s i dtMs g))) = []"
  shows "apexThreat (fst (worldStep s i dtMs g)) = apexThreat s"
proof -
  let ?dt = "clamp (dtMs / 1000) 0 (5 / 100)"
  let ?s2 = "s\<lparr>run := (run s)\<lparr>timeSeconds := timeSeconds (run s) + ?dt\<rparr>\<rparr>"
  obtain s3 g1 where sp: "maybeSpawn ?s2 ?dt g = (s3, g1)" by (cases "maybeSpawn ?s2 ?dt g")
  let ?s4 = "movePlayer s3 i ?dt"
  obtain ents g2 where ai: "updateEntitiesAI ?s4 ?dt (entities ?s4) g1 = (ents, g2)"
    by (cases "updateEntitiesAI ?s4 ?dt (entities ?s4) g1")
  let ?s5 = "?s4\<lparr>entities := ents\<rparr>"
  obtain s6 surv g3 where co: "collideAll ents (?s5, [], g2) = (s6, surv, g3)"
    by (cases "collideAll ents (?s5, [], g2)")
  have w: "fst (worldStep s i dtMs g) = s6\<lparr>entities := surv\<rparr>"
    using sp ai co by (simp add: worldStep_def Let_def)
  have "spawnFrame ?s2 s3" using maybeSpawn_frame [of ?s2 ?dt g] sp by simp
  then have s5: "pendingEvents ?s5 = []" "apexThreat ?s5 = apexThreat s"
    using assms(1) by (simp_all add: spawnFrame_def movePlayer_def Let_def)
  from collideAll_quiet [OF co] obtain evs where "pendingEvents s6 = pendingEvents ?s5 @ evs"
    and q: "filter isApexHit evs = [] \<longrightarrow> apexThreat s6 = apexThreat ?s5" by blast
  with s5 assms(2) w have "apexThreat s6 = apexThreat s" by simp
  with w show ?thesis by simp
qed

lemma growthLoop_hits:
  assumes "growthLoop s = Some s'"
  shows "filter isApexHit (pendingEvents s') = filter isApexHit (pendingEvents s)" (is "?P s s'")
  using assms
proof (rule growthLoop.raw_induct [where P = ?P, rotated])
  fix loop :: "GameState \<Rightarrow> GameState option" and st st'
  assume IH: "\<And>x y. loop x = Some y \<Longrightarrow> ?P x y"
  assume eq: "(if nextGrowthScore (run st) \<le> score (run st)
      then if sizeTier (player st) < MAX_SIZE_TIER then loop (growStep st)
           else if nextExtraLifeScore (run st) \<le> score (run st)
                then loop (extraLifeStep st) else Some st
      else Some st) = Some st'"
  show "?P st st'"
  proof (cases "nextGrowthScore (run st) \<le> score (run st)")
    case False
    with eq show ?thesis by simp
  next
    case True
    show ?thesis
    proof (cases "sizeTier (player st) < MAX_SIZE_TIER")
      case grow: True
      with True eq have "loop (growStep st) = Some st'" by simp
      from IH [OF this] show ?thesis by (simp add: growStep_fields)
    next
      case top: False
      show ?thesis
      proof (cases "nextExtraLifeScore (run st) \<le> score (run st)")
        case extra: True
        with True top eq have "loop (extraLifeStep st) = Some st'" by simp
        from IH [OF this] show ?thesis by (simp add: extraLifeStep_fields)
      next
        case False
        with True top eq show ?thesis by simp
      qed
    qed
  qed
qed

text \<open>
  Two ticks evaluated: a front contact under the grace period, which leaves the apex
  unhurt, and the kill of an apex with the intensity at 0.9 before.
\<close>

lemma calm_tick:
  "map_option (\<lambda>(s', g'). (pendingEvents s', map kind (entities s'), map damageFraction (entities s')))
      (tickGame calmState quietInput 16 halfDraws)
   = Some ([], [Apex], [0])"
  apply (simp add: tickGame_def playTick_def calmState_def shieldedState_def frontState_def
      quietInput_def Let_def clamp_def)
  apply (simp add: demoState_def frontApex_def maybeSpawn_def spawnKind_def isKindUnlocked_def
      spawnRateForKind_def spawnCapForKind_def countByKind_def spawnRates_def demoProfile_def Let_def
      movePlayer_def normalize_v_def len_def scale_def add_def lerp_def clamp_def ARENA_def origin_def)
  apply (simp add: updateEntityAI_def doesNpcAttackPlayer_def chaseSpeed_def wrap_def sub_def
      normalize_v_def len_def scale_def add_def lerp_def ARENA_def Let_def)
  apply (simp add: handlePlayerCollision_def overlapsFishFootprint_def fishExtents_def tailHitOpen_def
      hitCooldownReady_def eatOrHostile_def canEat_def Let_def)
  apply (simp add: updateGrowthAndLives_def growthLoop.simps milestoneStep_def milestoneForScore_def
      updateApexThreatState_def damageFraction_def Let_def)
  done

lemma hot_kill_tick:
  "map_option (\<lambda>(s', g'). (intensity (apexThreat s'), entities s', filter isApexHit (pendingEvents s')))
      (tickGame hotKillState quietInput 16 halfDraws)
   = Some (0, [], [EvApexHit 7 1 0 3 500 \<lparr>xc = 2426694784 / 10000000, yc = 270\<rparr>])"
  apply (simp add: tickGame_def playTick_def hotKillState_def killState_def quietInput_def Let_def clamp_def)
  apply (simp add: demoState_def tailApex_def maybeSpawn_def spawnKind_def isKindUnlocked_def spawnRateForKind_def
      spawnCapForKind_def countByKind_def spawnRates_def demoProfile_def Let_def movePlayer_def
      normalize_v_def len_def scale_def add_def lerp_def clamp_def ARENA_def origin_def)
  apply (simp add: updateEntityAI_def doesNpcAttackPlayer_def chaseSpeed_def wrap_def sub_def
      normalize_v_def len_def scale_def add_def lerp_def ARENA_def Let_def)
  apply (simp add: handlePlayerCollision_def overlapsFishFootprint_def fishExtents_def tailHitOpen_def
      hitCooldownReady_def APEX_HIT_COOLDOWN_SECONDS_def applyTailHit_def apexTailDamageForPlayer_def
      pointsForApexTailHit_def clamp_def Let_def)
  apply (simp add: updateGrowthAndLives_def growthLoop.simps growStep_def extraLifeStep_def MAX_SIZE_TIER_def
      playerRadiusForSizeTier_def milestoneStep_def milestoneForScore_def
      updateApexThreatState_def Let_def)
  done

text \<open>
  C4, as the code has it. A playing tick returns when the extra-life step is positive,
  and whenever it returns it has recomputed the threat intensity last, from the apex
  entities it leaves and from the intensity its collisions have left. With no apex
  left, that intensity falls by 0.02, not below 0 (a subtraction, not a factor of
  0.98); with at least one apex it is the larger of 0.985 times that intensity and the
  mean damage fraction of the apex entities left. The intensity the collisions leave is
  that of the previous state when the tick has no apex-hit event.
\<close>

theorem tick_threat:
  assumes "playsThisTick s i" and "apexHealthDefined s" and "apexMaxHealth (difficulty s) \<noteq> 0"
  shows "(0 < extraLifeScoreStep (difficulty s) \<longrightarrow> (\<exists>s' g'. tickGame s i dtMs g = Some (s', g')))
   \<and> (\<forall>s' g'. tickGame s i dtMs g = Some (s', g') \<longrightarrow>
        intensity (apexThreat s') =
          (if countByKind s' Apex = 0 then max 0 (afterCollisions s i dtMs g - 2 / 100)
           else max (afterCollisions s i dtMs g * (985 / 1000))
                    (sum_list (map damageFraction (filter (\<lambda>e. kind e = Apex) (entities s')))
                     / real (countByKind s' Apex)))
        \<and> (filter isApexHit (pendingEvents s') = []
             \<longrightarrow> afterCollisions s i dtMs g = intensity (apexThreat s)))"
proof (intro conjI)
  let ?s1 = "s\<lparr>elapsedMs := elapsedMs s + dtMs, pendingEvents := [], mode := Playing\<rparr>"
  show "0 < extraLifeScoreStep (difficulty s) \<longrightarrow> (\<exists>s' g'. tickGame s i dtMs g = Some (s', g'))"
    using playTick_returns [of ?s1 i dtMs g] tick_plays [OF assms(1), of dtMs g] by simp
next
  let ?s1 = "s\<lparr>elapsedMs := elapsedMs s + dtMs, pendingEvents := [], mode := Playing\<rparr>"
  have "intensity (apexThreat s') =
          (if countByKind s' Apex = 0 then max 0 (afterCollisions s i dtMs g - 2 / 100)
           else max (afterCollisions s i dtMs g * (985 / 1000))
                    (sum_list (map damageFraction (filter (\<lambda>e. kind e = Apex) (entities s')))
                     / real (countByKind s' Apex)))
        \<and> (filter isApexHit (pendingEvents s') = []
             \<longrightarrow> afterCollisions s i dtMs g = intensity (apexThreat s))"
    if tick: "tickGame s i dtMs g = Some (s', g')" for s' g'
  proof -
    from tick tick_plays [OF assms(1)] have "playTick ?s1 i dtMs g = Some (s', g')" by simp
    then obtain s7 sg where s7: "s7 = fst (worldStep ?s1 i dtMs g)"
      and loop: "growthLoop s7 = Some sg" and s': "s' = updateApexThreatState (milestoneStep sg)"
      by (rule playTick_parts)
    let ?m = "milestoneStep sg"
    have fr: "entities ?m = entities s7" "apexThreat ?m = apexThreat s7"
      using growthLoop_frame [OF loop] milestoneStep_fields(5) [of sg]
      by (simp_all add: progressFrame_def)
    have ac: "afterCollisions s i dtMs g = intensity (apexThreat ?m)"
      by (simp add: afterCollisions_def fr s7)
    have ent: "entities s' = entities ?m" by (simp add: s' threat_fields)
    have first: "intensity (apexThreat s') =
       (if countByKind s' Apex = 0 then max 0 (afterCollisions s i dtMs g - 2 / 100)
        else max (afterCollisions s i dtMs g * (985 / 1000))
                 (sum_list (map damageFraction (filter (\<lambda>e. kind e = Apex) (entities s')))
                  / real (countByKind s' Apex)))"
      unfolding ac countByKind_def ent
      by (simp add: s' updateApexThreatState_def Let_def foldl_damage_sum)
    have second: "afterCollisions s i dtMs g = intensity (apexThreat s)"
      if q: "filter isApexHit (pendingEvents s') = []"
    proof -
      have "filter isApexHit (pendingEvents s') = filter isApexHit (pendingEvents s7)"
        using growthLoop_hits [OF loop]
        by (simp add: s' threat_fields milestoneStep_fields)
      with q have "filter isApexHit (pendingEvents (fst (worldStep ?s1 i dtMs g))) = []"
        by (simp add: s7)
      from worldStep_quiet [OF _ this] show ?thesis
        by (simp add: afterCollisions_def)
    qed
    from first second show ?thesis by blast
  qed
  then show "\<forall>s' g'. tickGame s i dtMs g = Some (s', g') \<longrightarrow>
        intensity (apexThreat s') =
          (if countByKind s' Apex = 0 then max 0 (afterCollisions s i dtMs g - 2 / 100)
           else max (afterCollisions s i dtMs g * (985 / 1000))
                    (sum_list (map damageFraction (filter (\<lambda>e. kind e = Apex) (entities s')))
                     / real (countByKind s' Apex)))
        \<and> (filter isApexHit (pendingEvents s') = []
             \<longrightarrow> afterCollisions s i dtMs g = intensity (apexThreat s))"
    by blast
qed

theorem tick_threat_witness:
  "playsThisTick calmState quietInput
   \<and> apexHealthDefined calmState \<and> apexMaxHealth (difficulty calmState) \<noteq> 0
   \<and> 0 < extraLifeScoreStep (difficulty calmState)
   \<and> intensity (apexThreat calmState) = 1 / 2
   \<and> map_option (filter isApexHit \<circ> pendingEvents \<circ> fst) (tickGame calmState quietInput 16 halfDraws)
       = Some []
   \<and> map_option (intensity \<circ> apexThreat \<circ> fst) (tickGame calmState quietInput 16 halfDraws)
       = Some (1 / 2 * (985 / 1000))
   \<and> playsThisTick hotKillState quietInput
   \<and> apexHealthDefined hotKillState \<and> apexMaxHealth (difficulty hotKillState) \<noteq> 0
   \<and> intensity (apexThreat hotKillState) = 9 / 10
   \<and> map_option (intensity \<circ> apexThreat \<circ> fst) (tickGame hotKillState quietInput 16 halfDraws)
       = Some (max 0 (afterCollisions hotKillState quietInput 16 halfDraws - 2 / 100))
   \<and> map_option (intensity \<circ> apexThreat \<circ> fst) (tickGame hotKillState quietInput 16 halfDraws)
       = Some 0"
proof -
  have h: "playsThisTick calmState quietInput" "apexHealthDefined calmState"
    "apexMaxHealth (difficulty calmState) \<noteq> 0" "intensity (apexThreat calmState) = 1 / 2"
    "0 < extraLifeScoreStep (difficulty calmState)"
    by (simp_all add: playsThisTick_def apexHealthDefined_def calmState_def shieldedState_def
        frontState_def frontApex_def demoState_def demoProfile_def quietInput_def)
  have k: "playsThisTick hotKillState quietInput" "apexHealthDefined hotKillState"
    "apexMaxHealth (difficulty hotKillState) \<noteq> 0" "intensity (apexThreat hotKillState) = 9 / 10"
    by (simp_all add: playsThisTick_def apexHealthDefined_def hotKillState_def killState_def
        tailApex_def demoState_def demoProfile_def quietInput_def)
  note calm = tick_threat [OF h(1,2,3), of 16 halfDraws]
  from calm h(5) obtain s' g' where t: "tickGame calmState quietInput 16 halfDraws = Some (s', g')"
    by blast
  with calm_tick have ev: "pendingEvents s' = []" and kd: "map kind (entities s') = [Apex]"
    and df: "map damageFraction (entities s') = [0]"
    by simp_all
  from kd obtain e where e: "entities s' = [e]" "kind e = Apex" by auto
  with df have d: "damageFraction e = 0" by simp
  from calm t have "intensity (apexThreat s') =
          (if countByKind s' Apex = 0 then max 0 (afterCollisions calmState quietInput 16 halfDraws - 2 / 100)
           else max (afterCollisions calmState quietInput 16 halfDraws * (985 / 1000))
                    (sum_list (map damageFraction (filter (\<lambda>e. kind e = Apex) (entities s')))
                     / real (countByKind s' Apex)))
        \<and> (filter isApexHit (pendingEvents s') = []
             \<longrightarrow> afterCollisions calmState quietInput 16 halfDraws = intensity (apexThreat calmState))"
    by blast
  with ev h(4) e d have c: "intensity (apexThreat s') = 1 / 2 * (985 / 1000)"
    by (simp add: countByKind_def)
  obtain u gu where tu: "tickGame hotKillState quietInput 16 halfDraws = Some (u, gu)"
    and iu: "intensity (apexThreat u) = 0" and eu: "entities u = []"
    using hot_kill_tick by auto
  from tick_threat [OF k(1,2,3), of 16 halfDraws] tu
  have "intensity (apexThreat u) =
          (if countByKind u Apex = 0 then max 0 (afterCollisions hotKillState quietInput 16 halfDraws - 2 / 100)
           else max (afterCollisions hotKillState quietInput 16 halfDraws * (985 / 1000))
                    (sum_list (map damageFraction (filter (\<lambda>e. kind e = Apex) (entities u)))
                     / real (countByKind u Apex)))"
    by blast
  with eu have cu: "intensity (apexThreat u)
      = max 0 (afterCollisions hotKillState quietInput 16 halfDraws - 2 / 100)"
    by (simp add: countByKind_def)
  from h k t ev c tu iu cu show ?thesis by simp
qed

lemma decay_tick:
  "map_option (\<lambda>(s', g'). (intensity (apexThreat s'), entities s', pendingEvents s'))
      (tickGame decayState quietInput 16 halfDraws)
   = Some (48 / 100, [], [])"
  apply (simp add: tickGame_def playTick_def decayState_def quietInput_def Let_def clamp_def)
  apply (simp add: demoState_def maybeSpawn_def spawnKind_def isKindUnlocked_def spawnRateForKind_def
      spawnCapForKind_def countByKind_def spawnRates_def demoProfile_def Let_def movePlayer_def
      normalize_v_def len_def scale_def add_def lerp_def clamp_def ARENA_def origin_def)
  apply (simp add: updateGrowthAndLives_def growthLoop.simps milestoneStep_def milestoneForScore_def
      updateApexThreatState_def Let_def)
  done

text \<open>
  C4 as stated fails: with no apex and intensity 0.5 the claim's factor gives 0.49, the
  code 0.48, in the recomputation alone and in a whole playing tick without any event.
\<close>

theorem no_apex_decay_counterexample:
  "countByKind decayState Apex = 0
   \<and> intensity (apexThreat decayState) = 1 / 2
   \<and> intensity (apexThreat (updateApexThreatState decayState)) = 48 / 100
   \<and> intensity (apexThreat (updateApexThreatState decayState))
       \<noteq> intensity (apexThreat decayState) * (98 / 100)
   \<and> mode decayState = Playing
   \<and> map_option (\<lambda>p. countByKind (fst p) Apex) (tickGame decayState quietInput 16 halfDraws) = Some 0
   \<and> map_option (pendingEvents \<circ> fst) (tickGame decayState quietInput 16 halfDraws) = Some []
   \<and> map_option (intensity \<circ> apexThreat \<circ> fst) (tickGame decayState quietInput 16 halfDraws)
       = Some (48 / 100)"
proof -
  obtain s' g' where "tickGame decayState quietInput 16 halfDraws = Some (s', g')"
    and "intensity (apexThreat s') = 48 / 100" and "entities s' = []" and "pendingEvents s' = []"
    using decay_tick by auto
  then show ?thesis
    by (simp add: updateApexThreatState_def countByKind_def decayState_def demoState_def Let_def)
qed

end
